theory Spec2Isabelle
  imports Main
begin

section \<open>Strings\<close>

text \<open>
  Identifiers, paths and datasource expressions are modelled as \<^typ>\<open>string\<close>, a list of
  8-bit characters. The JavaScript string methods the code calls are written out on that
  type; \<open>toUpperCase\<close> and \<open>trim\<close> act on the ASCII range (letters \<open>a\<close> to \<open>z\<close>, and the
  white space characters tab, line feed, vertical tab, form feed, carriage return and
  space) and leave every other character alone.
\<close>

definition toUpperChar :: "char \<Rightarrow> char" where
  "toUpperChar c =
     (let n = (of_char c :: nat) in if 97 \<le> n \<and> n \<le> 122 then char_of (n - 32) else c)"

definition toUpperCase :: "string \<Rightarrow> string" where
  "toUpperCase s = map toUpperChar s"

definition isWhiteSpace :: "char \<Rightarrow> bool" where
  "isWhiteSpace c = (let n = (of_char c :: nat) in (9 \<le> n \<and> n \<le> 13) \<or> n = 32)"

definition trim :: "string \<Rightarrow> string" where
  "trim s = rev (dropWhile isWhiteSpace (rev (dropWhile isWhiteSpace s)))"

text \<open>\<open>s.substring(a, b)\<close>: both offsets are clamped to the length, and swapped when \<open>a > b\<close>.\<close>

definition substring :: "string \<Rightarrow> nat \<Rightarrow> nat \<Rightarrow> string" where
  "substring s a b = (let lo = min a b; hi = max a b in take (hi - lo) (drop lo s))"

text \<open>\<open>s.substring(a)\<close>: everything from offset \<open>a\<close> on.\<close>

definition substringFrom :: "string \<Rightarrow> nat \<Rightarrow> string" where
  "substringFrom s a = drop a s"

definition startsWith :: "string \<Rightarrow> string \<Rightarrow> bool" where
  "startsWith s p = (take (length p) s = p)"

text \<open>\<open>s.split(sep)\<close> for a one-character separator: always at least one piece.\<close>

fun split :: "char \<Rightarrow> string \<Rightarrow> string list" where
  "split sep [] = [[]]"
| "split sep (c # cs) =
     (if c = sep then [] # split sep cs
      else (case split sep cs of p # ps \<Rightarrow> (c # p) # ps | [] \<Rightarrow> [[c]]))"

text \<open>\<open>s.replace(pat, rep)\<close> for a string pattern: the first occurrence only.\<close>

fun replaceFirst :: "string \<Rightarrow> string \<Rightarrow> string \<Rightarrow> string" where
  "replaceFirst pat rep [] = (if pat = [] then rep else [])"
| "replaceFirst pat rep (c # cs) =
     (if take (length pat) (c # cs) = pat then rep @ drop (length pat) (c # cs)
      else c # replaceFirst pat rep cs)"

text \<open>Decimal digits of an index, as a template literal prints it.\<close>

fun showNat :: "nat \<Rightarrow> string" where
  "showNat n =
     (if n < 10 then [char_of (48 + n)] else showNat (n div 10) @ [char_of (48 + n mod 10)])"

declare showNat.simps [simp del]

section \<open>Identifier Normalizer\<close>

text \<open>The character class \<open>[{}-]\<close> of the three normalising functions.\<close>

definition isBraceOrHyphen :: "char \<Rightarrow> bool" where
  "isBraceOrHyphen c = (c = CHR ''{'' \<or> c = CHR ''}'' \<or> c = CHR ''-'')"

text \<open>The character class \<open>[{}]\<close> of the Local Path Resolver.\<close>

definition isBrace :: "char \<Rightarrow> bool" where
  "isBrace c = (c = CHR ''{'' \<or> c = CHR ''}'')"

definition normalizeItemId :: "string \<Rightarrow> string" where
  "normalizeItemId itemId = toUpperCase (filter (\<lambda>c. \<not> isBraceOrHyphen c) itemId)"

definition formatGuidWithoutHyphens :: "string \<Rightarrow> string" where
  "formatGuidWithoutHyphens guid = toUpperCase (filter (\<lambda>c. \<not> isBraceOrHyphen c) guid)"

definition formatGuidWithHyphens :: "string \<Rightarrow> string" where
  "formatGuidWithHyphens guid =
     (let clean = toUpperCase (filter (\<lambda>c. \<not> isBraceOrHyphen c) guid) in
      if length clean \<noteq> 32 then guid
      else substring clean 0 8 @ ''-'' @ substring clean 8 12 @ ''-'' @ substring clean 12 16
           @ ''-'' @ substring clean 16 20 @ ''-'' @ substring clean 20 32)"

text \<open>A string is in canonical form when normalising has nothing left to do on it.\<close>

definition isCanonical :: "string \<Rightarrow> bool" where
  "isCanonical s = (\<forall>c \<in> set s. \<not> isBraceOrHyphen c \<and> toUpperChar c = c)"

definition formatGuidForLive :: "string \<Rightarrow> string" where
  "formatGuidForLive guid = formatGuidWithHyphens guid"

text \<open>
  \<open>isValidGuid\<close> tests the anchored pattern
  \<open>^[{]?H{8}-H{4}-H{4}-H{4}-H{12}[}]?$\<close> with \<open>H = [0-9A-Fa-f]\<close>. The matcher below
  consumes the input from the left; \<open>None\<close> is a failed match. No hexadecimal digit is a
  brace, so the optional brace never needs backtracking.
\<close>

definition isHexDigit :: "char \<Rightarrow> bool" where
  "isHexDigit c =
     (let n = (of_char c :: nat) in
      (48 \<le> n \<and> n \<le> 57) \<or> (65 \<le> n \<and> n \<le> 70) \<or> (97 \<le> n \<and> n \<le> 102))"

fun hexRun :: "nat \<Rightarrow> string \<Rightarrow> string option" where
  "hexRun 0 s = Some s"
| "hexRun (Suc n) [] = None"
| "hexRun (Suc n) (c # cs) = (if isHexDigit c then hexRun n cs else None)"

fun literal :: "char \<Rightarrow> string \<Rightarrow> string option" where
  "literal x [] = None"
| "literal x (c # cs) = (if c = x then Some cs else None)"

fun optionalChar :: "char \<Rightarrow> string \<Rightarrow> string" where
  "optionalChar x [] = []"
| "optionalChar x (c # cs) = (if c = x then cs else c # cs)"

definition isValidGuid :: "string \<Rightarrow> bool" where
  "isValidGuid str =
     (case Option.bind (Option.bind (Option.bind (Option.bind (Option.bind (Option.bind
            (Option.bind (Option.bind (hexRun 8 (optionalChar CHR ''{'' str))
              (literal CHR ''-'')) (hexRun 4)) (literal CHR ''-'')) (hexRun 4))
              (literal CHR ''-'')) (hexRun 4)) (literal CHR ''-'')) (hexRun 12) of
        None \<Rightarrow> False
      | Some rest \<Rightarrow> optionalChar CHR ''}'' rest = [])"

section \<open>Datasource Expression Parser\<close>

record ParsedDatasource =
  directIds :: "string list"
  localPaths :: "string list"

text \<open>
  One segment of the pipe-separated list, in the order of the source's \<open>if\<close> chain: a GUID is
  normalised and pushed to the direct identifiers; \<open>local:/\<close> is cut off (seven characters)
  and the rest pushed to the local paths; a \<open>/sitecore/\<close> path is pushed whole; \<open>query:\<close>
  and anything else is only logged.
\<close>

definition parseSegment :: "ParsedDatasource \<Rightarrow> string \<Rightarrow> ParsedDatasource" where
  "parseSegment acc ds =
     (if isValidGuid ds then acc\<lparr>directIds := directIds acc @ [normalizeItemId ds]\<rparr>
      else if startsWith ds ''local:/'' then acc\<lparr>localPaths := localPaths acc @ [substringFrom ds 7]\<rparr>
      else if startsWith ds ''/sitecore/'' then acc\<lparr>localPaths := localPaths acc @ [ds]\<rparr>
      else if startsWith ds ''query:'' then acc
      else acc)"

section \<open>Untyped documents\<close>

text \<open>
  The page context, the presentation details and every value thrown or caught are untyped
  in the source (\<open>unknown\<close>). They are modelled as JSON values; a missing property
  (\<open>undefined\<close>) is \<open>None\<close>. A number is only ever tested for truthiness here, so it is
  kept as an integer.
\<close>

datatype json =
    JNull
  | JBool bool
  | JNum int
  | JStr string
  | JArr "json list"
  | JObj "(string \<times> json) list"

fun truthy :: "json \<Rightarrow> bool" where
  "truthy JNull = False"
| "truthy (JBool b) = b"
| "truthy (JNum n) = (n \<noteq> 0)"
| "truthy (JStr s) = (s \<noteq> [])"
| "truthy (JArr xs) = True"
| "truthy (JObj kvs) = True"

fun truthyOpt :: "json option \<Rightarrow> bool" where
  "truthyOpt None = False"
| "truthyOpt (Some v) = truthy v"

text \<open>\<open>a || b\<close>: the left operand when it is truthy, the right one otherwise.\<close>

definition jsOr :: "json option \<Rightarrow> json option \<Rightarrow> json option" where
  "jsOr a b = (if truthyOpt a then a else b)"

text \<open>
  \<open>v.key\<close> on a value that is not \<open>null\<close>: an object gives its entry, anything else has
  none of the property names the code reads. Reading a property of \<open>null\<close> throws a
  \<open>TypeError\<close>; the callers below test for \<open>JNull\<close> before they call \<open>getProp\<close>.
\<close>

fun getProp :: "json \<Rightarrow> string \<Rightarrow> json option" where
  "getProp (JObj kvs) key = map_of kvs key"
| "getProp v key = None"

text \<open>\<open>v && typeof v === 'object'\<close>: objects and arrays; \<open>null\<close> is falsy.\<close>

fun isObject :: "json option \<Rightarrow> bool" where
  "isObject (Some (JObj kvs)) = True"
| "isObject (Some (JArr xs)) = True"
| "isObject v = False"

text \<open>\<open>v && typeof v === 'string'\<close>: the non-empty strings.\<close>

fun nonEmptyString :: "json option \<Rightarrow> string option" where
  "nonEmptyString (Some (JStr s)) = (if s = [] then None else Some s)"
| "nonEmptyString v = None"

text \<open>An \<open>Error\<close> object, as far as the code looks at it: its message.\<close>

definition mkError :: "string \<Rightarrow> json" where
  "mkError msg = JObj [(''message'', JStr msg)]"

text \<open>
  \<open>parseDatasourceValue\<close>: a falsy or non-string argument parses to nothing; a string is
  split at the pipes, each piece trimmed, the empty pieces dropped, and the rest parsed in
  order.
\<close>

definition parseDatasourceValue :: "json \<Rightarrow> ParsedDatasource" where
  "parseDatasourceValue datasource =
     (case datasource of
        JStr s \<Rightarrow>
          (if s = [] then \<lparr>directIds = [], localPaths = []\<rparr>
           else foldl parseSegment \<lparr>directIds = [], localPaths = []\<rparr>
                  (filter (\<lambda>ds. length ds > 0) (map trim (split CHR ''|'' s))))
      | _ \<Rightarrow> \<lparr>directIds = [], localPaths = []\<rparr>)"

section \<open>Context Graph Walker\<close>

text \<open>\<open>if (!xs.includes(x)) xs.push(x)\<close>\<close>

definition pushNew :: "string list \<Rightarrow> string \<Rightarrow> string list" where
  "pushNew xs x = (if x \<in> set xs then xs else xs @ [x])"

text \<open>
  The walk over the presentation details runs inside a \<open>try\<close> block whose \<open>catch\<close> only
  logs, and it fills two arrays that are returned after the \<open>catch\<close>. So an exception in the
  middle of the walk keeps what was collected before it: \<open>Thrown acc\<close> carries the arrays
  as they were at the throw.
\<close>

datatype 'a outcome = Normal 'a | Thrown 'a

fun result :: "'a outcome \<Rightarrow> 'a" where
  "result (Normal a) = a"
| "result (Thrown a) = a"

fun forOf :: "('s \<Rightarrow> json \<Rightarrow> 's outcome) \<Rightarrow> 's \<Rightarrow> json list \<Rightarrow> 's outcome" where
  "forOf body s [] = Normal s"
| "forOf body s (x # xs) =
     (case body s x of Normal s' \<Rightarrow> forOf body s' xs | Thrown s' \<Rightarrow> Thrown s')"

text \<open>One rendering: its \<open>dataSource\<close> (or \<open>datasource\<close>) is parsed and collected without duplicates.\<close>

definition renderingStep :: "ParsedDatasource \<Rightarrow> json \<Rightarrow> ParsedDatasource outcome" where
  "renderingStep acc rendering =
     (if rendering = JNull then Thrown acc
      else
        let datasourceValue = jsOr (getProp rendering ''dataSource'') (getProp rendering ''datasource'') in
        (case datasourceValue of
           None \<Rightarrow> Normal acc
         | Some v \<Rightarrow>
             if truthy v then
               let parsed = parseDatasourceValue v in
               Normal \<lparr>directIds = foldl pushNew (directIds acc) (directIds parsed),
                       localPaths = foldl pushNew (localPaths acc) (localPaths parsed)\<rparr>
             else Normal acc))"

text \<open>\<open>if (x.renderings && Array.isArray(x.renderings)) for (const rendering of x.renderings) ...\<close>\<close>

definition renderingsOf :: "ParsedDatasource \<Rightarrow> json \<Rightarrow> ParsedDatasource outcome" where
  "renderingsOf acc holder =
     (if holder = JNull then Thrown acc
      else (case getProp holder ''renderings'' of
              Some (JArr renderings) \<Rightarrow> forOf renderingStep acc renderings
            | _ \<Rightarrow> Normal acc))"

definition deviceStep :: "ParsedDatasource \<Rightarrow> json \<Rightarrow> ParsedDatasource outcome" where
  "deviceStep acc device =
     (case renderingsOf acc device of
        Thrown acc' \<Rightarrow> Thrown acc'
      | Normal acc' \<Rightarrow>
          (case getProp device ''placeholders'' of
             Some (JArr placeholders) \<Rightarrow> forOf renderingsOf acc' placeholders
           | _ \<Rightarrow> Normal acc'))"

text \<open>
  \<open>JSON.parse\<close> is a parameter: \<open>parse s = None\<close> when it throws a \<open>SyntaxError\<close>. Both
  arrays are still empty at that point, and also when \<open>details\<close> is \<open>null\<close> and reading
  \<open>details.devices\<close> throws.
\<close>

definition extractDatasourcesFromPresentationDetails ::
    "(string \<Rightarrow> json option) \<Rightarrow> json \<Rightarrow> ParsedDatasource" where
  "extractDatasourcesFromPresentationDetails parse presentationDetails =
     (if \<not> truthy presentationDetails then \<lparr>directIds = [], localPaths = []\<rparr>
      else
        (case (case presentationDetails of JStr s \<Rightarrow> parse s | v \<Rightarrow> Some v) of
           None \<Rightarrow> \<lparr>directIds = [], localPaths = []\<rparr>
         | Some details \<Rightarrow>
             if details = JNull then \<lparr>directIds = [], localPaths = []\<rparr>
             else (case getProp details ''devices'' of
                     Some (JArr devices) \<Rightarrow>
                       result (forOf deviceStep \<lparr>directIds = [], localPaths = []\<rparr> devices)
                   | _ \<Rightarrow> \<lparr>directIds = [], localPaths = []\<rparr>)))"

text \<open>
  The result's \<open>currentPagePath\<close> is \<open>(pageInfo.path as string) || ''\<close>: the cast is not
  checked, so the field holds whatever truthy value the document has there.
\<close>

record ExtractedItemInfo =
  itemIds :: "string list"
  localPathsToResolve :: "string list"
  currentPagePath :: json

definition emptyExtractedItemInfo :: ExtractedItemInfo where
  "emptyExtractedItemInfo = \<lparr>itemIds = [], localPathsToResolve = [], currentPagePath = JStr []\<rparr>"

text \<open>
  \<open>if (currentItemId && typeof currentItemId === 'string') { ... if (!itemIds.includes(clean))
  itemIds.unshift(clean) }\<close>, as the branch for local paths has it (no \<open>else\<close>).
\<close>

definition addMainItemFirst :: "json option \<Rightarrow> string list \<Rightarrow> string list" where
  "addMainItemFirst currentItemId ids =
     (case nonEmptyString currentItemId of
        None \<Rightarrow> ids
      | Some s \<Rightarrow>
          let cleanCurrentId = normalizeItemId s in
          if cleanCurrentId \<in> set ids then ids else cleanCurrentId # ids)"

text \<open>
  The part of \<open>extractItemIdsWithLocalPaths\<close> after the \<open>pageInfo\<close> block: the two
  fallbacks for the current item identifier, then the final \<open>if\<close>/\<open>else\<close>.
\<close>

definition finishExtraction :: "json \<Rightarrow> json option \<Rightarrow> string list \<Rightarrow> json \<Rightarrow> ExtractedItemInfo" where
  "finishExtraction context currentItemId0 ids pagePath =
     (let siteInfo = getProp context ''siteInfo'';
          currentItemId1 =
            (if \<not> truthyOpt currentItemId0 \<and> isObject siteInfo
             then jsOr (getProp (the siteInfo) ''itemId'') (getProp (the siteInfo) ''id'')
             else currentItemId0);
          currentItemId2 =
            (if \<not> truthyOpt currentItemId1
             then jsOr (jsOr (getProp context ''itemId'') (getProp context ''id'')) (getProp context ''pageId'')
             else currentItemId1)
      in (case nonEmptyString currentItemId2 of
            Some s \<Rightarrow>
              let cleanCurrentId = normalizeItemId s in
              \<lparr>itemIds = (if cleanCurrentId \<in> set ids then ids else cleanCurrentId # ids),
               localPathsToResolve = [], currentPagePath = pagePath\<rparr>
          | None \<Rightarrow> emptyExtractedItemInfo))"

definition extractItemIdsWithLocalPaths ::
    "(string \<Rightarrow> json option) \<Rightarrow> json \<Rightarrow> ExtractedItemInfo" where
  "extractItemIdsWithLocalPaths parse pageContext =
     (if \<not> isObject (Some pageContext) then emptyExtractedItemInfo
      else
        let context = pageContext; pageInfoField = getProp context ''pageInfo'' in
        if isObject pageInfoField then
          let pageInfo = the pageInfoField;
              pagePath = (case jsOr (getProp pageInfo ''path'') (Some (JStr [])) of
                            Some v \<Rightarrow> v | None \<Rightarrow> JStr []);
              currentItemId = jsOr (jsOr (getProp pageInfo ''itemId'') (getProp pageInfo ''id''))
                                   (getProp pageInfo ''pageId'')
          in (case getProp pageInfo ''presentationDetails'' of
                Some details \<Rightarrow>
                  if truthy details then
                    let extracted = extractDatasourcesFromPresentationDetails parse details;
                        ids = foldl pushNew [] (directIds extracted)
                    in if length (localPaths extracted) > 0
                       then \<lparr>itemIds = addMainItemFirst currentItemId ids,
                             localPathsToResolve = localPaths extracted,
                             currentPagePath = pagePath\<rparr>
                       else finishExtraction context currentItemId ids pagePath
                  else finishExtraction context currentItemId [] pagePath
              | None \<Rightarrow> finishExtraction context currentItemId [] pagePath)
        else finishExtraction context None [] (JStr []))"

definition extractItemIds :: "(string \<Rightarrow> json option) \<Rightarrow> json \<Rightarrow> string list" where
  "extractItemIds parse pageContext = itemIds (extractItemIdsWithLocalPaths parse pageContext)"

section \<open>Response envelopes\<close>

text \<open>
  The declarations of \<open>types/itemInformation.ts\<close>.

  \<open>ItemType\<close> is the union of the four literals \<open>'current'\<close>, \<open>'datasource'\<close>, \<open>'link'\<close> and
  \<open>'reference'\<close>.

  \<open>ItemQueryResult\<close> is
  \<open>{ data?: { data?: Record<string, unknown>; errors?: unknown[] }; error?: unknown }\<close>.
  A value of type \<open>unknown\<close> is a JSON value, an optional field that is missing is \<open>None\<close>,
  and the record under \<open>data.data\<close> is a map from alias to payload. The two fields of the
  inner object carry the prefix \<open>gql_\<close>, since the outer one is called \<open>data\<close> as well.

  \<open>AuthoringItemResponse\<close> and \<open>LiveItemResponse\<close> occur in the code only as the targets of
  the casts \<open>as AuthoringItemResponse | undefined\<close> and \<open>as LiveItemResponse | undefined\<close> in
  \<open>processItemData\<close>. A cast checks nothing when the program runs, so the payload stays
  the JSON value it is, and the model reads from it the fields the code reads: \<open>name\<close>,
  \<open>path\<close>, \<open>version\<close>, \<open>template.name\<close> and \<open>language.name\<close>.

  \<open>ProcessedItemInfo\<close> declares \<open>id: string\<close>, \<open>name: string\<close>, \<open>path: string\<close>,
  \<open>latestVersion: number\<close>, \<open>publishedVersion: number | null\<close>, \<open>isPublished: boolean\<close>,
  \<open>isOutdated: boolean\<close>, \<open>versionDifference: number\<close>, \<open>itemType: ItemType\<close>,
  \<open>template?: string\<close> and \<open>language?: string\<close>. The fields that \<open>processItemData\<close> fills
  from a payload hold what the payload has there, a string or a number when the payload has
  the declared shape; they are JSON values in the record, with \<open>JNull\<close> for \<open>null\<close>. The
  field \<open>id\<close> is written \<open>id'\<close>.

  \<open>ItemInformationSummary\<close> has four counts, which are lengths of arrays.
\<close>

datatype ItemType = Current | Datasource | Link | Reference

record ProcessedItemInfo =
  id' :: string
  name :: json
  path :: json
  latestVersion :: json
  publishedVersion :: json
  isPublished :: bool
  isOutdated :: bool
  versionDifference :: json
  itemType :: ItemType
  template :: "json option"
  language :: "json option"

record ItemInformationSummary =
  totalItems :: nat
  publishedItems :: nat
  unpublishedItems :: nat
  outdatedItems :: nat

record GraphQLBody =
  gql_data :: "(string \<rightharpoonup> json) option"
  gql_errors :: "json list option"

record ItemQueryResult =
  data :: "GraphQLBody option"
  error :: "json option"

text \<open>The envelope both fetchers return at once for an empty identifier list: \<open>{data: {data: {}}}\<close>.\<close>

definition emptyEnvelope :: ItemQueryResult where
  "emptyEnvelope = \<lparr>data = Some \<lparr>gql_data = Some Map.empty, gql_errors = None\<rparr>, error = None\<rparr>"

text \<open>The envelope of a \<open>catch\<close> block: \<open>{error}\<close>.\<close>

definition errorEnvelope :: "json \<Rightarrow> ItemQueryResult" where
  "errorEnvelope e = \<lparr>data = None, error = Some e\<rparr>"

section \<open>Response Reconciler\<close>

text \<open>
  The diagnostics of \<open>validateResponse\<close> are strings built from the values they report;
  the model keeps the value and the kind of message.
\<close>

datatype diagnostic = ResponseError json | NoData | GraphQLError json

record Validation =
  isValid :: bool
  errors :: "diagnostic list"
  validData :: "(string \<rightharpoonup> json) option"

text \<open>
  One entry of \<open>response.data.errors\<close>: the \<open>message\<close> of an object that has one, the
  entry itself otherwise.
\<close>

fun graphQLError :: "json \<Rightarrow> diagnostic" where
  "graphQLError (JObj kvs) =
     (case map_of kvs ''message'' of Some m \<Rightarrow> GraphQLError m | None \<Rightarrow> GraphQLError (JObj kvs))"
| "graphQLError v = GraphQLError v"

definition validateResponse :: "ItemQueryResult \<Rightarrow> Validation" where
  "validateResponse response =
     (if truthyOpt (error response)
      then \<lparr>isValid = False, errors = [ResponseError (the (error response))], validData = None\<rparr>
      else
        (case data response of
           None \<Rightarrow> \<lparr>isValid = False, errors = [NoData], validData = None\<rparr>
         | Some body \<Rightarrow>
             (case gql_data body of
                None \<Rightarrow> \<lparr>isValid = False, errors = [NoData], validData = None\<rparr>
              | Some d \<Rightarrow>
                  let errs = (case gql_errors body of
                                None \<Rightarrow> []
                              | Some es \<Rightarrow> if length es > 0 then map graphQLError es else [])
                  in \<lparr>isValid = (length errs = 0), errors = errs, validData = Some d\<rparr>)))"

definition determineItemType :: "string \<Rightarrow> string option \<Rightarrow> ItemType" where
  "determineItemType itemId currentItemId = (if Some itemId = currentItemId then Current else Reference)"

text \<open>\<open>validation.data?.[`item${index}`]\<close>\<close>

definition itemAt :: "(string \<rightharpoonup> json) option \<Rightarrow> nat \<Rightarrow> json option" where
  "itemAt d index = (case d of None \<Rightarrow> None | Some m \<Rightarrow> m (''item'' @ showNat index))"

text \<open>
  \<open>v?.key\<close>: \<open>undefined\<close> when \<open>v\<close> is \<open>undefined\<close> or \<open>null\<close>, the property otherwise.
\<close>

definition optChain :: "json option \<Rightarrow> string \<Rightarrow> json option" where
  "optChain v key =
     (case v of None \<Rightarrow> None | Some x \<Rightarrow> if x = JNull then None else getProp x key)"

text \<open>\<open>a || d\<close> with a right operand that is always there.\<close>

definition orElse :: "json option \<Rightarrow> json \<Rightarrow> json" where
  "orElse a d = (case a of None \<Rightarrow> d | Some v \<Rightarrow> if truthy v then v else d)"

text \<open>
  The operators \<open><\<close> and \<open>-\<close> of JavaScript are parameters of the reconciler. On two
  numbers they are the comparison and the subtraction of IEEE 754 doubles, and on other
  operands they convert first; the model does not compute them, and what is proved
  holds for whatever they return. A number stays the integer it is in the JSON model: the
  reconciler tests it for truthiness, copies it and hands it to these operators, nothing
  else.
\<close>

record operators =
  lessThan :: "json \<Rightarrow> json \<Rightarrow> bool"
  minus :: "json \<Rightarrow> json \<Rightarrow> json"

text \<open>
  The body of the \<open>forEach\<close> of \<open>processItemData\<close>, for one identifier and its index.
\<close>

definition processItem ::
    "operators \<Rightarrow> (string \<rightharpoonup> json) option \<Rightarrow> (string \<rightharpoonup> json) option \<Rightarrow>
     string option \<Rightarrow> nat \<Rightarrow> string \<Rightarrow> ProcessedItemInfo" where
  "processItem ops authoringData liveData currentItemId index itemId =
     (let authoringItem = itemAt authoringData index;
          liveItem = itemAt liveData index;
          latestVersion' = orElse (optChain authoringItem ''version'') (JNum 0);
          publishedVersion' = orElse (optChain liveItem ''version'') JNull;
          isPublished' = (publishedVersion' \<noteq> JNull);
          isOutdated' = (isPublished' \<and> lessThan ops publishedVersion' latestVersion')
      in \<lparr>id' = itemId,
          name = orElse (jsOr (optChain authoringItem ''name'') (optChain liveItem ''name''))
                   (JStr ''Unknown Item''),
          path = orElse (optChain authoringItem ''path'') (JStr []),
          latestVersion = latestVersion',
          publishedVersion = publishedVersion',
          isPublished = isPublished',
          isOutdated = isOutdated',
          versionDifference =
            (if isPublished' then minus ops latestVersion' publishedVersion' else latestVersion'),
          itemType = determineItemType itemId currentItemId,
          template = optChain (optChain authoringItem ''template'') ''name'',
          language = Some (orElse (jsOr (optChain (optChain authoringItem ''language'') ''name'')
                                        (optChain (optChain liveItem ''language'') ''name''))
                             (JStr ''en''))\<rparr>)"

definition processItemData ::
    "operators \<Rightarrow> ItemQueryResult \<Rightarrow> ItemQueryResult \<Rightarrow> string list \<Rightarrow> string option \<Rightarrow>
     ProcessedItemInfo list" where
  "processItemData ops authoringResult liveResult ids currentItemId =
     (let authoringValidation = validateResponse authoringResult;
          liveValidation = validateResponse liveResult
      in map (\<lambda>(index, itemId).
                processItem ops (validData authoringValidation) (validData liveValidation)
                  currentItemId index itemId)
             (enumerate 0 ids))"

section \<open>Report Assembler\<close>

definition generateSummary :: "ProcessedItemInfo list \<Rightarrow> ItemInformationSummary" where
  "generateSummary items =
     \<lparr>totalItems = length items,
      publishedItems = length (filter (\<lambda>item. isPublished item) items),
      unpublishedItems = length (filter (\<lambda>item. \<not> isPublished item) items),
      outdatedItems = length (filter (\<lambda>item. isOutdated item) items)\<rparr>"

section \<open>Dual-Endpoint Fetcher\<close>

text \<open>
  Both fetchers are \<open>async\<close>: their value is a promise, \<open>Inr\<close> for a fulfilled and \<open>Inl\<close>
  for a rejected one (carrying the thrown value). The transports are parameters. The
  query text is the template filled with the identifiers in list order, the alias of
  position \<open>i\<close> being \<open>item\<close> followed by \<open>i\<close>; the model hands the transport the values
  the text is built from.
\<close>

record AuthoringRequest =
  req_endpoint :: string
  req_sitecoreContextId :: string
  req_itemIds :: "string list"

text \<open>
  \<open>!sitecoreContextId\<close> holds of a missing token and of the empty string; the \<open>throw\<close> it
  guards stands before the \<open>try\<close> block.
\<close>

definition getItemsFromAuthoring ::
    "(AuthoringRequest \<Rightarrow> json + ItemQueryResult) option \<Rightarrow> string list \<Rightarrow> string option \<Rightarrow>
     json + ItemQueryResult" where
  "getItemsFromAuthoring client ids sitecoreContextId =
     (case client of
        None \<Rightarrow> Inr emptyEnvelope
      | Some mutate \<Rightarrow>
          if length ids = 0 then Inr emptyEnvelope
          else
            (case sitecoreContextId of
               None \<Rightarrow> Inl (mkError ''sitecoreContextId is required for authoring GraphQL queries'')
             | Some token \<Rightarrow>
                 if token = []
                 then Inl (mkError ''sitecoreContextId is required for authoring GraphQL queries'')
                 else
                   (case mutate \<lparr>req_endpoint = ''xmc.authoring.graphql'',
                                 req_sitecoreContextId = token, req_itemIds = ids\<rparr> of
                      Inr res \<Rightarrow> Inr res
                    | Inl e \<Rightarrow> Inr (errorEnvelope e))))"

text \<open>
  The live fetcher calls \<open>fetch\<close> itself. \<open>fetch\<close> rejects or yields a response; a response
  that is not \<open>ok\<close> makes the code throw inside its own \<open>try\<close>; \<open>response.json()\<close> rejects or
  yields the parsed body, which is wrapped as \<open>{data: body}\<close>. The body has the type of the
  field it is put in.
\<close>

record HttpResponse =
  ok :: bool
  status :: nat
  json :: "json + GraphQLBody option"

definition getItemsFromLive ::
    "'c \<Rightarrow> (string list \<Rightarrow> json + HttpResponse) \<Rightarrow> string list \<Rightarrow> string option \<Rightarrow>
     json + ItemQueryResult" where
  "getItemsFromLive client fetch ids sitecoreContextId =
     (if length ids = 0 then Inr emptyEnvelope
      else
        (case fetch (map formatGuidForLive ids) of
           Inl e \<Rightarrow> Inr (errorEnvelope e)
         | Inr response \<Rightarrow>
             if \<not> ok response
             then Inr (errorEnvelope (mkError (''HTTP error! status: '' @ showNat (status response))))
             else
               (case json response of
                  Inl e \<Rightarrow> Inr (errorEnvelope e)
                | Inr body \<Rightarrow> Inr \<lparr>data = body, error = None\<rparr>)))"

section \<open>Local Path Resolver\<close>

record ResolveRequest =
  res_endpoint :: string
  res_sitecoreContextId :: string
  res_fullPaths :: "string list"

text \<open>
  What the success branch stores for the path of position \<open>index\<close>. The slot is read as
  \<open>responseData[`path${index}`] as { itemId?: string; name?: string } | null\<close>, an unchecked
  cast again. With \<open>item && item.itemId\<close> truthy the code calls
  \<open>item.itemId.replace(/[{}]/g, '').toUpperCase()\<close>: on a string that removes the braces and
  upper-cases; on any other truthy value there is no \<open>replace\<close> and a \<open>TypeError\<close> is
  thrown (\<open>Inl\<close>). Otherwise the path gets \<open>null\<close>.
\<close>

definition resolveSlot :: "(string \<rightharpoonup> json) \<Rightarrow> nat \<Rightarrow> json + string option" where
  "resolveSlot responseData index =
     (case responseData (''path'' @ showNat index) of
        None \<Rightarrow> Inr None
      | Some item \<Rightarrow>
          if truthy item then
            (case getProp item ''itemId'' of
               None \<Rightarrow> Inr None
             | Some (JStr s) \<Rightarrow>
                 if s \<noteq> [] then Inr (Some (toUpperCase (filter (\<lambda>c. \<not> isBrace c) s)))
                 else Inr None
             | Some v \<Rightarrow>
                 if truthy v then Inl (mkError ''item.itemId.replace is not a function'')
                 else Inr None)
          else Inr None)"

text \<open>
  The \<open>forEach\<close> of the success branch over the paths and their indices: \<open>result[localPath] = ...\<close>
  for each, until one of them throws.
\<close>

fun resolveLoop ::
    "(string \<rightharpoonup> json) \<Rightarrow> (string \<rightharpoonup> string option) \<Rightarrow> (nat \<times> string) list \<Rightarrow>
     json + (string \<rightharpoonup> string option)" where
  "resolveLoop responseData res [] = Inr res"
| "resolveLoop responseData res ((index, localPath) # rest) =
     (case resolveSlot responseData index of
        Inl e \<Rightarrow> Inl e
      | Inr v \<Rightarrow> resolveLoop responseData (res(localPath \<mapsto> v)) rest)"

text \<open>The \<open>catch\<close> branch: a new record with \<open>null\<close> for every path.\<close>

definition allNull :: "string list \<Rightarrow> (string \<rightharpoonup> string option)" where
  "allNull paths = foldl (\<lambda>res p. res(p \<mapsto> None)) Map.empty paths"

text \<open>
  The resolver never rejects: everything after the query text is inside \<open>try\<close>. Its value
  is the record it returns, a map from local path to identifier or \<open>null\<close>.
\<close>

definition resolveLocalDatasourcePaths ::
    "(ResolveRequest \<Rightarrow> json + ItemQueryResult) option \<Rightarrow> string list \<Rightarrow> string \<Rightarrow> string \<Rightarrow>
     (string \<rightharpoonup> string option)" where
  "resolveLocalDatasourcePaths client paths basePath sitecoreContextId =
     (case client of
        None \<Rightarrow> Map.empty
      | Some mutate \<Rightarrow>
          if length paths = 0 then Map.empty
          else
            let fullPaths = map (\<lambda>localPath. basePath @ ''/Data/'' @ replaceFirst ''Data/'' [] localPath) paths in
            (case mutate \<lparr>res_endpoint = ''xmc.authoring.graphql'',
                          res_sitecoreContextId = sitecoreContextId, res_fullPaths = fullPaths\<rparr> of
               Inl e \<Rightarrow> allNull paths
             | Inr response \<Rightarrow>
                 (case Option.bind (data response) gql_data of
                    None \<Rightarrow> Map.empty
                  | Some responseData \<Rightarrow>
                      (case resolveLoop responseData Map.empty (enumerate 0 paths) of
                         Inl e \<Rightarrow> allNull paths
                       | Inr res \<Rightarrow> res))))"

section \<open>Example data\<close>

text \<open>Concrete inputs at which the theorems below are evaluated.\<close>

definition exampleItems :: "ProcessedItemInfo list" where
  "exampleItems =
     [\<lparr>id' = ''A'', name = JStr ''Home'', path = JStr ''/home'', latestVersion = JNum 8,
       publishedVersion = JNum 5, isPublished = True, isOutdated = True,
       versionDifference = JNum 3, itemType = Current, template = None,
       language = Some (JStr ''en'')\<rparr>,
      \<lparr>id' = ''B'', name = JStr ''Text'', path = JStr ''/home/text'', latestVersion = JNum 2,
       publishedVersion = JNull, isPublished = False, isOutdated = False,
       versionDifference = JNum 2, itemType = Reference, template = None,
       language = Some (JStr ''en'')\<rparr>]"

text \<open>
  An interpretation of the two operators, for evaluating the theorems at small versions. On
  two integers of magnitude at most \<open>2^52\<close> it compares and subtracts them, which is what
  JavaScript computes for them (the difference is an integer of magnitude at most \<open>2^53\<close>,
  so no rounding occurs). On any other operands it answers \<open>false\<close> and \<open>null\<close> and does not
  stand for JavaScript; no evaluation below reaches them.
\<close>

definition integerOperators :: operators where
  "integerOperators =
     \<lparr>lessThan = (\<lambda>a b. case (a, b) of
                      (JNum x, JNum y) \<Rightarrow> \<bar>x\<bar> \<le> 2 ^ 52 \<and> \<bar>y\<bar> \<le> 2 ^ 52 \<and> x < y
                    | _ \<Rightarrow> False),
      minus = (\<lambda>a b. case (a, b) of
                   (JNum x, JNum y) \<Rightarrow>
                     if \<bar>x\<bar> \<le> 2 ^ 52 \<and> \<bar>y\<bar> \<le> 2 ^ 52 then JNum (x - y) else JNull
                 | _ \<Rightarrow> JNull)\<rparr>"

text \<open>Payloads as the two endpoints send them.\<close>

definition exampleAuthoringItem :: json where
  "exampleAuthoringItem =
     JObj [(''itemId'', JStr ''5ed521788f0649be9d4cf191e650189e''), (''name'', JStr ''Article''),
           (''path'', JStr ''/sitecore/content/Home/Article''), (''version'', JNum 8),
           (''template'', JObj [(''name'', JStr ''Page'')]),
           (''language'', JObj [(''name'', JStr ''en'')])]"

definition exampleNamelessItem :: json where
  "exampleNamelessItem =
     JObj [(''itemId'', JStr ''5ed521788f0649be9d4cf191e650189e''), (''name'', JStr []),
           (''path'', JStr ''/sitecore/content/Home/Article''), (''version'', JNum 8)]"

definition exampleLiveItem :: json where
  "exampleLiveItem =
     JObj [(''id'', JStr ''5ED521788F0649BE9D4CF191E650189E''), (''name'', JStr ''Home''),
           (''version'', JNum 5), (''language'', JObj [(''name'', JStr ''da'')])]"

definition exampleLiveItem2 :: json where
  "exampleLiveItem2 =
     JObj [(''id'', JStr ''9C8262E464564946B04ED5873874615E''), (''name'', JStr ''Footer''),
           (''version'', JNum 2), (''language'', JObj [(''name'', JStr ''de'')])]"

definition exampleLiveItemZero :: json where
  "exampleLiveItemZero =
     JObj [(''id'', JStr ''5ED521788F0649BE9D4CF191E650189E''), (''name'', JStr ''Article''),
           (''version'', JNum 0)]"

text \<open>Success envelopes, named after the aliases their data has.\<close>

definition authoringItem1 :: ItemQueryResult where
  "authoringItem1 =
     \<lparr>data = Some \<lparr>gql_data = Some [''item1'' \<mapsto> exampleAuthoringItem], gql_errors = None\<rparr>,
      error = None\<rparr>"

definition authoringItem0 :: ItemQueryResult where
  "authoringItem0 =
     \<lparr>data = Some \<lparr>gql_data = Some [''item0'' \<mapsto> exampleAuthoringItem], gql_errors = None\<rparr>,
      error = None\<rparr>"

definition authoringItem0Nameless :: ItemQueryResult where
  "authoringItem0Nameless =
     \<lparr>data = Some \<lparr>gql_data = Some [''item0'' \<mapsto> exampleNamelessItem], gql_errors = None\<rparr>,
      error = None\<rparr>"

definition liveItem0Item2 :: ItemQueryResult where
  "liveItem0Item2 =
     \<lparr>data = Some \<lparr>gql_data = Some [''item0'' \<mapsto> exampleLiveItem, ''item2'' \<mapsto> exampleLiveItem2],
                   gql_errors = None\<rparr>,
      error = None\<rparr>"

definition liveItem0 :: ItemQueryResult where
  "liveItem0 =
     \<lparr>data = Some \<lparr>gql_data = Some [''item0'' \<mapsto> exampleLiveItem], gql_errors = None\<rparr>,
      error = None\<rparr>"

definition liveItem0Zero :: ItemQueryResult where
  "liveItem0Zero =
     \<lparr>data = Some \<lparr>gql_data = Some [''item0'' \<mapsto> exampleLiveItemZero], gql_errors = None\<rparr>,
      error = None\<rparr>"

text \<open>
  What a GraphQL endpoint answers when the query fails as a whole: a body with \<open>errors\<close> and
  no \<open>data\<close>, and the envelope that wraps it.
\<close>

definition errorsOnlyBody :: GraphQLBody where
  "errorsOnlyBody =
     \<lparr>gql_data = None, gql_errors = Some [JObj [(''message'', JStr ''Cannot query field'')]]\<rparr>"

definition errorsOnlyEnvelope :: ItemQueryResult where
  "errorsOnlyEnvelope = \<lparr>data = Some errorsOnlyBody, error = None\<rparr>"

text \<open>Presentation details with one device and one rendering, whose \<open>dataSource\<close> is \<open>ds\<close>.\<close>

definition examplePresentation :: "string \<Rightarrow> json" where
  "examplePresentation ds =
     JObj [(''devices'', JArr [JObj [(''renderings'', JArr [JObj [(''dataSource'', JStr ds)]])]])]"

text \<open>
  A page context with no item identifier anywhere (none under \<open>pageInfo\<close>, no \<open>siteInfo\<close>,
  none at the top level), whose only rendering names a GUID and a local path.
\<close>

definition contextWithoutAnchor :: json where
  "contextWithoutAnchor =
     JObj [(''pageInfo'', JObj [(''presentationDetails'',
        examplePresentation ''{AAAAAAAA-BBBB-CCCC-DDDD-EEEEEEEEEEEE}|local:/Data/Text 1'')])]"

text \<open>
  A page context whose current item is \<open>BBBBBBBB-...\<close> and whose only rendering names another
  item and then the page itself.
\<close>

definition contextWithSelfReference :: json where
  "contextWithSelfReference =
     JObj [(''pageInfo'', JObj [(''itemId'', JStr ''{BBBBBBBB-BBBB-CCCC-DDDD-EEEEEEEEEEEE}''),
        (''presentationDetails'',
          examplePresentation
            ''{AAAAAAAA-BBBB-CCCC-DDDD-EEEEEEEEEEEE}|{BBBBBBBB-BBBB-CCCC-DDDD-EEEEEEEEEEEE}'')])]"

text \<open>Transports for the authoring fetcher: one that rejects, one that answers, one whose answer has only errors.\<close>

definition rejectingMutate :: "AuthoringRequest \<Rightarrow> json + ItemQueryResult" where
  "rejectingMutate req = Inl (mkError ''Network request failed'')"

definition answeringMutate :: "AuthoringRequest \<Rightarrow> json + ItemQueryResult" where
  "answeringMutate req = Inr authoringItem0"

definition errorsOnlyMutate :: "AuthoringRequest \<Rightarrow> json + ItemQueryResult" where
  "errorsOnlyMutate req = Inr errorsOnlyEnvelope"

text \<open>
  Transports for the live fetcher: a \<open>fetch\<close> that rejects, one that answers with status 500,
  one whose body cannot be parsed, one that answers with the data of \<open>liveItem0\<close>, and one
  whose body has only errors.
\<close>

definition rejectingFetch :: "string list \<Rightarrow> json + HttpResponse" where
  "rejectingFetch ids = Inl (mkError ''Failed to fetch'')"

definition failingFetch :: "string list \<Rightarrow> json + HttpResponse" where
  "failingFetch ids = Inr \<lparr>ok = False, status = 500, json = Inr None\<rparr>"

definition unparsableFetch :: "string list \<Rightarrow> json + HttpResponse" where
  "unparsableFetch ids =
     Inr \<lparr>ok = True, status = 200, json = Inl (mkError ''Unexpected token < in JSON'')\<rparr>"

definition answeringFetch :: "string list \<Rightarrow> json + HttpResponse" where
  "answeringFetch ids = Inr \<lparr>ok = True, status = 200, json = Inr (data liveItem0)\<rparr>"

definition errorsOnlyFetch :: "string list \<Rightarrow> json + HttpResponse" where
  "errorsOnlyFetch ids = Inr \<lparr>ok = True, status = 200, json = Inr (Some errorsOnlyBody)\<rparr>"

text \<open>
  Answers to the resolution query: an item whose identifier comes as the endpoint sends it
  (32 hexadecimal digits), one whose identifier comes hyphenated, one item for the first of
  two slots only, and one whose first \<open>itemId\<close> is a number.
\<close>

definition resolvedCompact :: "ResolveRequest \<Rightarrow> json + ItemQueryResult" where
  "resolvedCompact req =
     Inr \<lparr>data = Some \<lparr>gql_data = Some [''path0'' \<mapsto>
                          JObj [(''itemId'', JStr ''9c8262e464564946b04ed5873874615e''),
                                (''name'', JStr ''Text 1'')]],
                       gql_errors = None\<rparr>,
          error = None\<rparr>"

definition resolvedHyphenated :: "ResolveRequest \<Rightarrow> json + ItemQueryResult" where
  "resolvedHyphenated req =
     Inr \<lparr>data = Some \<lparr>gql_data = Some [''path0'' \<mapsto>
                          JObj [(''itemId'', JStr ''aaaaaaaa-bbbb-cccc-dddd-eeeeeeeeeeee''),
                                (''name'', JStr ''Text 1'')]],
                       gql_errors = None\<rparr>,
          error = None\<rparr>"

definition resolvedFirstOnly :: "ResolveRequest \<Rightarrow> json + ItemQueryResult" where
  "resolvedFirstOnly req =
     Inr \<lparr>data = Some \<lparr>gql_data = Some [''path0'' \<mapsto>
                          JObj [(''itemId'', JStr ''9c8262e464564946b04ed5873874615e''),
                                (''name'', JStr ''Text 1'')],
                                          ''path1'' \<mapsto> JNull],
                       gql_errors = None\<rparr>,
          error = None\<rparr>"

definition resolvedNumber :: "ResolveRequest \<Rightarrow> json + ItemQueryResult" where
  "resolvedNumber req =
     Inr \<lparr>data = Some \<lparr>gql_data = Some [''path0'' \<mapsto> JObj [(''itemId'', JNum 7)],
                                          ''path1'' \<mapsto>
                          JObj [(''itemId'', JStr ''9c8262e464564946b04ed5873874615e'')]],
                       gql_errors = None\<rparr>,
          error = None\<rparr>"

section \<open>Properties of the Identifier Normalizer\<close>

lemma of_char_toUpperChar:
  "(of_char (toUpperChar c) :: nat) =
     (if 97 \<le> (of_char c :: nat) \<and> (of_char c :: nat) \<le> 122 then of_char c - 32 else of_char c)"
  by (auto simp: toUpperChar_def Let_def)

lemma isBraceOrHyphen_code:
  "isBraceOrHyphen c =
     ((of_char c :: nat) = 123 \<or> (of_char c :: nat) = 125 \<or> (of_char c :: nat) = 45)"
proof -
  have "(c = CHR ''{'') = ((of_char c :: nat) = of_char CHR ''{'')"
       "(c = CHR ''}'') = ((of_char c :: nat) = of_char CHR ''}'')"
       "(c = CHR ''-'') = ((of_char c :: nat) = of_char CHR ''-'')"
    by (simp_all only: of_char_eq_iff)
  then show ?thesis unfolding isBraceOrHyphen_def by simp
qed

lemma toUpperChar_brace: "isBraceOrHyphen (toUpperChar c) = isBraceOrHyphen c"
  by (auto simp: isBraceOrHyphen_code of_char_toUpperChar)

lemma toUpperChar_idem: "toUpperChar (toUpperChar c) = toUpperChar c"
proof -
  have "(of_char (toUpperChar (toUpperChar c)) :: nat) = of_char (toUpperChar c)"
    by (auto simp: of_char_toUpperChar)
  then show ?thesis by (simp only: of_char_eq_iff)
qed

lemma isCanonical_normal: "isCanonical (toUpperCase (filter (\<lambda>c. \<not> isBraceOrHyphen c) x))"
  by (auto simp: isCanonical_def toUpperCase_def toUpperChar_brace toUpperChar_idem)

lemma isCanonical_fixed:
  assumes "isCanonical s"
  shows "toUpperCase (filter (\<lambda>c. \<not> isBraceOrHyphen c) s) = s"
proof -
  have "filter (\<lambda>c. \<not> isBraceOrHyphen c) s = s"
    using assms by (simp add: isCanonical_def filter_id_conv)
  moreover have "map toUpperChar s = s"
    using assms by (simp add: isCanonical_def map_idI)
  ultimately show ?thesis by (simp add: toUpperCase_def)
qed

lemma isCanonical_sub: "isCanonical s \<Longrightarrow> isCanonical (take n (drop m s))"
  unfolding isCanonical_def by (meson in_set_dropD in_set_takeD)

lemma strip_hyphen_append:
  "toUpperCase (filter (\<lambda>c. \<not> isBraceOrHyphen c) (xs @ ''-'' @ ys)) =
   toUpperCase (filter (\<lambda>c. \<not> isBraceOrHyphen c) xs)
     @ toUpperCase (filter (\<lambda>c. \<not> isBraceOrHyphen c) ys)"
  by (simp add: toUpperCase_def isBraceOrHyphen_def)

lemma pieces32:
  assumes "length s = 32"
  shows "take 8 s @ take 4 (drop 8 s) @ take 4 (drop 12 s) @ take 4 (drop 16 s)
           @ take 12 (drop 20 s) = s"
proof -
  have "take 8 s @ take 4 (drop 8 s) = take 12 s"
    using take_add [of 8 4 s] by simp
  moreover have "take 12 s @ take 4 (drop 12 s) = take 16 s"
    using take_add [of 12 4 s] by simp
  moreover have "take 16 s @ take 4 (drop 16 s) = take 20 s"
    using take_add [of 16 4 s] by simp
  moreover have "take 20 s @ take 12 (drop 20 s) = take 32 s"
    using take_add [of 20 12 s] by simp
  moreover have "take 32 s = s" using assms by simp
  ultimately show ?thesis by (metis append.assoc)
qed

text \<open>Hyphenating a canonical string and normalising again gives the string back, whatever its length.\<close>

lemma hyphenate_canonical:
  assumes "isCanonical s"
  shows "formatGuidWithoutHyphens (formatGuidWithHyphens s) = s"
proof (cases "length s = 32")
  case False
  then show ?thesis
    using assms
    by (simp add: formatGuidWithHyphens_def formatGuidWithoutHyphens_def isCanonical_fixed)
next
  case True
  have sub: "\<And>n m. toUpperCase (filter (\<lambda>c. \<not> isBraceOrHyphen c) (take n (drop m s)))
                 = take n (drop m s)"
    using assms by (simp add: isCanonical_fixed isCanonical_sub)
  have sub0: "\<And>n. toUpperCase (filter (\<lambda>c. \<not> isBraceOrHyphen c) (take n s)) = take n s"
    using sub [of _ 0] by simp
  have "formatGuidWithHyphens s =
      take 8 s @ ''-'' @ take 4 (drop 8 s) @ ''-'' @ take 4 (drop 12 s) @ ''-''
        @ take 4 (drop 16 s) @ ''-'' @ take 12 (drop 20 s)"
    using assms True by (simp add: formatGuidWithHyphens_def isCanonical_fixed substring_def)
  then have "formatGuidWithoutHyphens (formatGuidWithHyphens s) =
      take 8 s @ take 4 (drop 8 s) @ take 4 (drop 12 s) @ take 4 (drop 16 s) @ take 12 (drop 20 s)"
    unfolding formatGuidWithoutHyphens_def by (simp only: strip_hyphen_append sub sub0)
  then show ?thesis using pieces32 [OF True] by simp
qed

text \<open>
  Claim C9. For every string \<open>x\<close>, canonicalising, hyphenating and canonicalising again
  gives the canonical form of \<open>x\<close>:
  \<open>toCanonical (toHyphenated (toCanonical x)) = toCanonical x\<close>, with
  \<open>formatGuidWithoutHyphens\<close> as \<open>toCanonical\<close> and \<open>formatGuidWithHyphens\<close> as
  \<open>toHyphenated\<close>.
\<close>

theorem canonicalization_roundtrip:
  "formatGuidWithoutHyphens (formatGuidWithHyphens (formatGuidWithoutHyphens x))
     = formatGuidWithoutHyphens x"
  unfolding formatGuidWithoutHyphens_def [of x]
  by (rule hyphenate_canonical) (rule isCanonical_normal)

section \<open>Properties of the summary\<close>

lemma length_filter_mono:
  "(\<forall>x \<in> set xs. Q x \<longrightarrow> P x) \<Longrightarrow> length (filter Q xs) \<le> length (filter P xs)"
  by (induction xs) auto

text \<open>
  Claim C10. For every list of processed items, \<open>generateSummary\<close> returns \<open>totalItems\<close>
  equal to the length of the list, and \<open>publishedItems + unpublishedItems = totalItems\<close>;
  and when every record of the list that is outdated is also published,
  \<open>outdatedItems \<le> publishedItems\<close>.
\<close>

theorem generateSummary_partition:
  "totalItems (generateSummary items) = length items \<and>
   publishedItems (generateSummary items) + unpublishedItems (generateSummary items)
     = totalItems (generateSummary items) \<and>
   ((\<forall>p \<in> set items. isOutdated p \<longrightarrow> isPublished p) \<longrightarrow>
      outdatedItems (generateSummary items) \<le> publishedItems (generateSummary items))"
proof -
  have "length (filter (\<lambda>item. isPublished item) items)
          + length (filter (\<lambda>item. \<not> isPublished item) items) = length items"
    by (rule sum_length_filter_compl)
  then show ?thesis
    by (simp add: generateSummary_def length_filter_mono)
qed

text \<open>
  The theorem at \<open>exampleItems\<close>, a list of two records, one published and outdated, one
  not published: every outdated record of it is published, and the counts are 2, 1, 1 and 1.
\<close>

theorem generateSummary_partition_witness:
  "totalItems (generateSummary exampleItems) = 2 \<and>
   publishedItems (generateSummary exampleItems) + unpublishedItems (generateSummary exampleItems) = 2 \<and>
   outdatedItems (generateSummary exampleItems) \<le> publishedItems (generateSummary exampleItems)"
proof -
  have hyp: "\<forall>p \<in> set exampleItems. isOutdated p \<longrightarrow> isPublished p"
    by (simp add: exampleItems_def)
  have len: "length exampleItems = 2"
    by (simp add: exampleItems_def)
  show ?thesis
    using generateSummary_partition [of exampleItems] hyp len by simp
qed

section \<open>Properties of the Datasource Expression Parser\<close>

text \<open>
  Claim C6, as the code has it. For the datasource field value
  \<open>{AAAAAAAA-BBBB-CCCC-DDDD-EEEEEEEEEEEE}|local:/Data/Text 1\<close> the parser returns the direct
  identifier \<open>AAAAAAAABBBBCCCCDDDDEEEEEEEEEEEE\<close> and the local path \<open>Data/Text 1\<close>: only
  the prefix \<open>local:/\<close> is cut off, the \<open>Data/\<close> segment stays.
\<close>

theorem parseDatasourceValue_scenario:
  "parseDatasourceValue (JStr ''{AAAAAAAA-BBBB-CCCC-DDDD-EEEEEEEEEEEE}|local:/Data/Text 1'') =
     \<lparr>directIds = [''AAAAAAAABBBBCCCCDDDDEEEEEEEEEEEE''], localPaths = [''Data/Text 1'']\<rparr>"
  by code_simp

text \<open>Claim C6 as stated asks for the local paths \<open>[Text 1]\<close>; the parser does not return them.\<close>

theorem parseDatasourceValue_scenario_counterexample:
  "localPaths (parseDatasourceValue
      (JStr ''{AAAAAAAA-BBBB-CCCC-DDDD-EEEEEEEEEEEE}|local:/Data/Text 1'')) \<noteq> [''Text 1'']"
  by code_simp

section \<open>Properties of the Context Graph Walker\<close>

text \<open>
  What holds of the walker for every page context: the identifier list has no duplicates;
  without any item identifier the result is empty as long as no local path was
  collected; and an identifier found under \<open>pageInfo\<close> is the first element as long as it
  was not collected as a datasource.
\<close>

lemma distinct_pushNew: "distinct xs \<Longrightarrow> distinct (pushNew xs x)"
  by (simp add: pushNew_def)

lemma distinct_foldl_pushNew: "distinct xs \<Longrightarrow> distinct (foldl pushNew xs ys)"
  by (induction ys arbitrary: xs) (simp_all add: distinct_pushNew)

lemma distinct_addMainItemFirst: "distinct ids \<Longrightarrow> distinct (addMainItemFirst c ids)"
  by (simp add: addMainItemFirst_def Let_def split: option.splits)

lemma distinct_finishExtraction:
  "distinct ids \<Longrightarrow> distinct (itemIds (finishExtraction context c ids p))"
  by (simp add: finishExtraction_def emptyExtractedItemInfo_def Let_def split: option.splits)

lemma distinct_extractItemIds:
  "distinct (itemIds (extractItemIdsWithLocalPaths parse pageContext))"
  by (simp add: extractItemIdsWithLocalPaths_def emptyExtractedItemInfo_def Let_def
        distinct_finishExtraction distinct_addMainItemFirst distinct_foldl_pushNew
      split: option.splits)

lemma set_foldl_pushNew: "set (foldl pushNew xs ys) = set xs \<union> set ys"
  by (induction ys arbitrary: xs) (auto simp: pushNew_def)

lemma truthyOpt_nonEmptyString: "nonEmptyString c = Some s \<Longrightarrow> truthyOpt c"
  by (cases c rule: nonEmptyString.cases) (auto split: if_splits)

lemma missing_anchor_without_local_paths:
  assumes "isObject (Some pageContext)"
      and "getProp pageContext ''pageInfo'' = Some pageInfo" and "isObject (Some pageInfo)"
      and "getProp pageInfo ''itemId'' = None" and "getProp pageInfo ''id'' = None"
      and "getProp pageInfo ''pageId'' = None"
      and "getProp pageContext ''siteInfo'' = None"
      and "getProp pageContext ''itemId'' = None" and "getProp pageContext ''id'' = None"
      and "getProp pageContext ''pageId'' = None"
      and "\<And>d. getProp pageInfo ''presentationDetails'' = Some d \<Longrightarrow>
             localPaths (extractDatasourcesFromPresentationDetails parse d) = []"
  shows "extractItemIdsWithLocalPaths parse pageContext = emptyExtractedItemInfo"
proof -
  have fin: "\<And>ids p. finishExtraction pageContext None ids p = emptyExtractedItemInfo"
    using assms(7-10) by (simp add: finishExtraction_def jsOr_def Let_def)
  have cur: "jsOr (jsOr (getProp pageInfo ''itemId'') (getProp pageInfo ''id''))
               (getProp pageInfo ''pageId'') = None"
    using assms(4-6) by (simp add: jsOr_def)
  show ?thesis
    using assms(1-3) assms(11)
    by (simp add: extractItemIdsWithLocalPaths_def Let_def cur fin split: option.splits)
qed

lemma current_item_first_when_not_collected:
  assumes "isObject (Some pageContext)"
      and "getProp pageContext ''pageInfo'' = Some pageInfo" and "isObject (Some pageInfo)"
      and "nonEmptyString (jsOr (jsOr (getProp pageInfo ''itemId'') (getProp pageInfo ''id''))
             (getProp pageInfo ''pageId'')) = Some s"
      and "\<And>d. getProp pageInfo ''presentationDetails'' = Some d \<Longrightarrow>
             normalizeItemId s \<notin> set (directIds (extractDatasourcesFromPresentationDetails parse d))"
  shows "\<exists>rest. itemIds (extractItemIdsWithLocalPaths parse pageContext) = normalizeItemId s # rest"
proof -
  let ?c = "jsOr (jsOr (getProp pageInfo ''itemId'') (getProp pageInfo ''id''))
             (getProp pageInfo ''pageId'')"
  have t: "truthyOpt ?c" using assms(4) by (rule truthyOpt_nonEmptyString)
  have fin: "\<And>ids p. normalizeItemId s \<notin> set ids \<Longrightarrow>
               itemIds (finishExtraction pageContext ?c ids p) = normalizeItemId s # ids"
    using assms(4) t by (simp add: finishExtraction_def Let_def)
  have add: "\<And>ids. normalizeItemId s \<notin> set ids \<Longrightarrow>
               addMainItemFirst ?c ids = normalizeItemId s # ids"
    using assms(4) by (simp add: addMainItemFirst_def Let_def)
  show ?thesis
  proof (cases "getProp pageInfo ''presentationDetails''")
    case None
    then show ?thesis
      using assms(1-3) by (simp add: extractItemIdsWithLocalPaths_def Let_def fin)
  next
    case (Some d)
    have new: "normalizeItemId s \<notin> set (foldl pushNew []
                 (directIds (extractDatasourcesFromPresentationDetails parse d)))"
      using assms(5) [OF Some] by (simp add: set_foldl_pushNew)
    show ?thesis
      using assms(1-3) Some fin [OF new] add [OF new] fin [of "[]"]
      by (simp add: extractItemIdsWithLocalPaths_def Let_def)
  qed
qed

text \<open>
  Claim C4 says that a page context with no current item identifier gives the empty result,
  whatever was collected from the presentation details. The last branch of the function
  does that; the branch that returns early for local paths does not. At
  \<open>contextWithoutAnchor\<close> the walker returns the collected identifier and the local path.
\<close>

theorem missing_anchor_early_return:
  "extractItemIdsWithLocalPaths parse contextWithoutAnchor =
     \<lparr>itemIds = [''AAAAAAAABBBBCCCCDDDDEEEEEEEEEEEE''],
      localPathsToResolve = [''Data/Text 1''], currentPagePath = JStr []\<rparr>"
  by code_simp

text \<open>
  Claim C5 says that the current item's canonical identifier is the first element of the
  identifier list, moved to the front when it was already collected. The code puts it in
  front only when it is not yet in the list: at \<open>contextWithSelfReference\<close>, whose current
  item \<open>BBBBBBBB...\<close> is also a datasource of the page, the list starts with the other
  datasource.
\<close>

theorem current_item_not_moved_to_front:
  "itemIds (extractItemIdsWithLocalPaths parse contextWithSelfReference) =
     [''AAAAAAAABBBBCCCCDDDDEEEEEEEEEEEE'', ''BBBBBBBBBBBBCCCCDDDDEEEEEEEEEEEE''] \<and>
   normalizeItemId ''{BBBBBBBB-BBBB-CCCC-DDDD-EEEEEEEEEEEE}'' = ''BBBBBBBBBBBBCCCCDDDDEEEEEEEEEEEE''"
  by code_simp

section \<open>Properties of the Local Path Resolver\<close>

lemma showNat_small:
  "showNat 0 = ''0''" "showNat (Suc 0) = ''1''" "showNat (Suc (Suc 0)) = ''2''"
  by (simp_all add: showNat.simps char_of_eq_iff)

text \<open>What \<open>resolveSlot\<close> gives for a slot with a string identifier, with no item, and with an item without identifier.\<close>

lemma resolveSlot_string:
  assumes "responseData (''path'' @ showNat k) = Some item"
      and "getProp item ''itemId'' = Some (JStr s)" and "s \<noteq> []"
  shows "resolveSlot responseData k = Inr (Some (toUpperCase (filter (\<lambda>c. \<not> isBrace c) s)))"
proof -
  obtain kvs where "item = JObj kvs"
    using assms(2) by (cases item) simp_all
  then show ?thesis
    using assms by (simp add: resolveSlot_def del: append.simps)
qed

lemma resolveSlot_absent:
  "responseData (''path'' @ showNat k) = None \<Longrightarrow> resolveSlot responseData k = Inr None"
  by (simp add: resolveSlot_def del: append.simps)

lemma resolveSlot_no_id:
  assumes "responseData (''path'' @ showNat k) = Some item"
      and "\<not> truthyOpt (getProp item ''itemId'')"
  shows "resolveSlot responseData k = Inr None"
  using assms
  by (cases "getProp item ''itemId''")
     (auto simp: resolveSlot_def split: json.splits simp del: append.simps)

text \<open>A slot whose \<open>itemId\<close> is a string whenever it is truthy does not throw.\<close>

lemma resolveSlot_typed:
  assumes "\<And>item v. responseData (''path'' @ showNat k) = Some item \<Longrightarrow>
             getProp item ''itemId'' = Some v \<Longrightarrow> truthy v \<Longrightarrow> \<exists>s. v = JStr s"
  shows "\<exists>r. resolveSlot responseData k = Inr r"
proof (cases "responseData (''path'' @ showNat k)")
  case None
  then show ?thesis by (simp add: resolveSlot_absent)
next
  case (Some item)
  show ?thesis
  proof (cases "getProp item ''itemId''")
    case None
    with Some show ?thesis by (simp add: resolveSlot_no_id)
  next
    case (Some v)
    show ?thesis
    proof (cases "truthy v")
      case False
      with Some \<open>responseData (''path'' @ showNat k) = Some item\<close> show ?thesis
        by (simp add: resolveSlot_no_id)
    next
      case True
      with assms [OF \<open>responseData (''path'' @ showNat k) = Some item\<close> Some]
      obtain s where s: "v = JStr s" by blast
      with True have "s \<noteq> []" by simp
      with Some s \<open>responseData (''path'' @ showNat k) = Some item\<close> show ?thesis
        by (simp add: resolveSlot_string)
    qed
  qed
qed

text \<open>
  When no slot throws, the loop ends with a record in which every path has the result of the
  slot of its last position, and which is unchanged outside the paths.
\<close>

lemma resolveLoop_ok:
  assumes "\<forall>k < length xs. \<exists>r. resolveSlot rd (n + k) = Inr r"
  shows "\<exists>res'. resolveLoop rd res (enumerate n xs) = Inr res' \<and>
           (\<forall>i < length xs. (\<forall>k < length xs. i < k \<longrightarrow> xs ! k \<noteq> xs ! i) \<longrightarrow>
              resolveSlot rd (n + i) = Inr (the (res' (xs ! i))) \<and> res' (xs ! i) \<noteq> None) \<and>
           (\<forall>p. p \<notin> set xs \<longrightarrow> res' p = res p)"
  using assms
proof (induction xs arbitrary: n res)
  case Nil
  then show ?case by simp
next
  case (Cons x xs)
  from Cons.prems obtain r where r: "resolveSlot rd n = Inr r" by fastforce
  have tl: "\<forall>k < length xs. \<exists>r. resolveSlot rd (Suc n + k) = Inr r"
    using Cons.prems by fastforce
  from Cons.IH [OF tl, of "res(x \<mapsto> r)"]
  obtain res' where loop: "resolveLoop rd (res(x \<mapsto> r)) (enumerate (Suc n) xs) = Inr res'"
    and last: "\<forall>i < length xs. (\<forall>k < length xs. i < k \<longrightarrow> xs ! k \<noteq> xs ! i) \<longrightarrow>
              resolveSlot rd (Suc n + i) = Inr (the (res' (xs ! i))) \<and> res' (xs ! i) \<noteq> None"
    and other: "\<forall>p. p \<notin> set xs \<longrightarrow> res' p = (res(x \<mapsto> r)) p"
    by blast
  have run: "resolveLoop rd res (enumerate n (x # xs)) = Inr res'"
    using r loop by simp
  have here: "\<forall>i < length (x # xs). (\<forall>k < length (x # xs). i < k \<longrightarrow> (x # xs) ! k \<noteq> (x # xs) ! i) \<longrightarrow>
              resolveSlot rd (n + i) = Inr (the (res' ((x # xs) ! i))) \<and> res' ((x # xs) ! i) \<noteq> None"
  proof (intro allI impI)
    fix i
    assume i: "i < length (x # xs)"
       and late: "\<forall>k < length (x # xs). i < k \<longrightarrow> (x # xs) ! k \<noteq> (x # xs) ! i"
    show "resolveSlot rd (n + i) = Inr (the (res' ((x # xs) ! i))) \<and> res' ((x # xs) ! i) \<noteq> None"
    proof (cases i)
      case 0
      have "x \<notin> set xs"
      proof
        assume "x \<in> set xs"
        then obtain j where "j < length xs" "xs ! j = x" by (auto simp: in_set_conv_nth)
        with late 0 show False by (auto dest: spec [of _ "Suc j"])
      qed
      with other have "res' x = Some r" by simp
      with 0 r show ?thesis by simp
    next
      case (Suc j)
      with i have j: "j < length xs" by simp
      have "\<forall>k < length xs. j < k \<longrightarrow> xs ! k \<noteq> xs ! j"
      proof (intro allI impI)
        fix k assume "k < length xs" "j < k"
        with late Suc show "xs ! k \<noteq> xs ! j" by (auto dest: spec [of _ "Suc k"])
      qed
      with last j Suc show ?thesis by simp
    qed
  qed
  have rest: "\<forall>p. p \<notin> set (x # xs) \<longrightarrow> res' p = res p"
    using other by simp
  from run here rest show ?case by blast
qed

lemma no_hyphen_canonical:
  "CHR ''-'' \<notin> set s \<Longrightarrow>
   toUpperCase (filter (\<lambda>c. \<not> isBrace c) s) = formatGuidWithoutHyphens s"
proof -
  assume "CHR ''-'' \<notin> set s"
  then have "filter (\<lambda>c. \<not> isBrace c) s = filter (\<lambda>c. \<not> isBraceOrHyphen c) s"
    by (intro filter_cong) (auto simp: isBrace_def isBraceOrHyphen_def)
  then show ?thesis by (simp add: formatGuidWithoutHyphens_def)
qed

text \<open>After a failed query every path is mapped to \<open>null\<close>.\<close>

lemma allNull_member: "p \<in> set paths \<Longrightarrow> allNull paths p = Some None"
proof -
  have "\<And>m. p \<in> set paths \<Longrightarrow> foldl (\<lambda>res p. res(p \<mapsto> None)) m paths p = Some None"
  proof (induction paths rule: rev_induct)
    case Nil then show ?case by simp
  next
    case (snoc x xs) then show ?case by auto
  qed
  then show "p \<in> set paths \<Longrightarrow> allNull paths p = Some None"
    by (simp add: allNull_def)
qed

lemma resolveLocalDatasourcePaths_failure:
  assumes "p \<in> set paths"
      and "mutate \<lparr>res_endpoint = ''xmc.authoring.graphql'', res_sitecoreContextId = ctx,
                   res_fullPaths = map (\<lambda>localPath. basePath @ ''/Data/'' @ replaceFirst ''Data/'' [] localPath) paths\<rparr>
             = Inl e"
  shows "resolveLocalDatasourcePaths (Some mutate) paths basePath ctx p = Some None"
  using assms by (auto simp: resolveLocalDatasourcePaths_def Let_def allNull_member)

text \<open>
  Claim C7 as stated says that a resolved identifier is stored in canonical form, also when
  it arrives hyphenated, for every list of paths. Three inputs where this fails: an
  identifier that arrives as \<open>aaaaaaaa-bbbb-cccc-dddd-eeeeeeeeeeee\<close> is stored with its
  hyphens, while its canonical form has none; a path that stands twice in the list, with an
  item in its first slot and none in its second, is mapped to \<open>null\<close>; and when the
  \<open>itemId\<close> of the first slot is a number, the second path is mapped to \<open>null\<close> although
  its slot has an item.
\<close>

theorem resolver_not_canonical_counterexample:
  "resolveLocalDatasourcePaths (Some resolvedHyphenated) [''Data/Text 1'']
      ''/sitecore/content/Home'' ''ctx-1'' ''Data/Text 1''
     = Some (Some ''AAAAAAAA-BBBB-CCCC-DDDD-EEEEEEEEEEEE'') \<and>
   formatGuidWithoutHyphens ''aaaaaaaa-bbbb-cccc-dddd-eeeeeeeeeeee''
     = ''AAAAAAAABBBBCCCCDDDDEEEEEEEEEEEE'' \<and>
   resolveLocalDatasourcePaths (Some resolvedFirstOnly) [''Data/Text 1'', ''Data/Text 1'']
      ''/sitecore/content/Home'' ''ctx-1'' ''Data/Text 1'' = Some None \<and>
   resolveLocalDatasourcePaths (Some resolvedNumber) [''Data/Text 1'', ''Data/Text 2'']
      ''/sitecore/content/Home'' ''ctx-1'' ''Data/Text 2'' = Some None"
  by code_simp

text \<open>
  Claim C7, amended. For every list of symbolic paths, when the batched query succeeds with
  data in which every \<open>itemId\<close> that is truthy is a string, and for every position \<open>i\<close> of
  the list after which the same path does not stand again: if the slot of \<open>i\<close> has an item
  with a non-empty \<open>itemId\<close>, the path is mapped to that identifier with the braces removed
  and upper-cased, hyphens kept; this is the canonical form when the identifier arrives
  without hyphens; and if the slot of \<open>i\<close> has no item, or an item without a truthy
  \<open>itemId\<close>, the path is mapped to \<open>null\<close>.
\<close>

theorem resolver_maps_slots:
  assumes "mutate \<lparr>res_endpoint = ''xmc.authoring.graphql'', res_sitecoreContextId = ctx,
                   res_fullPaths = map (\<lambda>localPath. basePath @ ''/Data/'' @ replaceFirst ''Data/'' [] localPath) paths\<rparr>
             = Inr response"
      and "Option.bind (data response) gql_data = Some responseData"
      and "\<forall>k < length paths. \<forall>item v.
             responseData (''path'' @ showNat k) = Some item \<and>
             getProp item ''itemId'' = Some v \<and> truthy v \<longrightarrow> (\<exists>s. v = JStr s)"
      and "i < length paths"
      and "\<forall>k < length paths. i < k \<longrightarrow> paths ! k \<noteq> paths ! i"
  shows "(responseData (''path'' @ showNat i) = Some item \<and>
          getProp item ''itemId'' = Some (JStr s) \<and> s \<noteq> [] \<longrightarrow>
            resolveLocalDatasourcePaths (Some mutate) paths basePath ctx (paths ! i)
              = Some (Some (toUpperCase (filter (\<lambda>c. \<not> isBrace c) s))) \<and>
            (CHR ''-'' \<notin> set s \<longrightarrow>
               resolveLocalDatasourcePaths (Some mutate) paths basePath ctx (paths ! i)
                 = Some (Some (formatGuidWithoutHyphens s)))) \<and>
         (responseData (''path'' @ showNat i) = None \<longrightarrow>
            resolveLocalDatasourcePaths (Some mutate) paths basePath ctx (paths ! i) = Some None) \<and>
         (responseData (''path'' @ showNat i) = Some item \<and>
          \<not> truthyOpt (getProp item ''itemId'') \<longrightarrow>
            resolveLocalDatasourcePaths (Some mutate) paths basePath ctx (paths ! i) = Some None)"
proof -
  have ok: "\<forall>k < length paths. \<exists>r. resolveSlot responseData (0 + k) = Inr r"
    using assms(3) by (auto intro!: resolveSlot_typed)
  from resolveLoop_ok [OF ok, of Map.empty]
  obtain res' where loop: "resolveLoop responseData Map.empty (enumerate 0 paths) = Inr res'"
    and last: "\<forall>j < length paths. (\<forall>k < length paths. j < k \<longrightarrow> paths ! k \<noteq> paths ! j) \<longrightarrow>
              resolveSlot responseData (0 + j) = Inr (the (res' (paths ! j))) \<and> res' (paths ! j) \<noteq> None"
    by blast
  have res: "resolveLocalDatasourcePaths (Some mutate) paths basePath ctx = res'"
    using assms(1,2,4) loop by (auto simp: resolveLocalDatasourcePaths_def Let_def)
  from last assms(4,5)
  have slot: "resolveSlot responseData i = Inr (the (res' (paths ! i)))" and some: "res' (paths ! i) \<noteq> None"
    by auto
  have val: "\<And>r. resolveSlot responseData i = Inr r \<Longrightarrow> res' (paths ! i) = Some r"
    using slot some by auto
  have string: "res' (paths ! i) = Some (Some (toUpperCase (filter (\<lambda>c. \<not> isBrace c) s)))"
    if "responseData (''path'' @ showNat i) = Some item"
       "getProp item ''itemId'' = Some (JStr s)" "s \<noteq> []"
    using that by (intro val resolveSlot_string)
  have absent: "res' (paths ! i) = Some None" if "responseData (''path'' @ showNat i) = None"
    using that by (intro val resolveSlot_absent)
  have no_id: "res' (paths ! i) = Some None"
    if "responseData (''path'' @ showNat i) = Some item" "\<not> truthyOpt (getProp item ''itemId'')"
    using that by (intro val resolveSlot_no_id)
  show ?thesis
    unfolding res using string absent no_id
    by (simp add: no_hyphen_canonical del: append.simps)
qed

text \<open>
  The theorem at two paths and the answer \<open>resolvedCompact\<close>, which has an item for the
  first: the first path gets the identifier in canonical form, the second \<open>null\<close>.
\<close>

theorem resolver_maps_slots_witness:
  "resolveLocalDatasourcePaths (Some resolvedCompact) [''Data/Text 1'', ''Data/Text 2'']
      ''/sitecore/content/Home'' ''ctx-1'' ''Data/Text 1''
     = Some (Some ''9C8262E464564946B04ED5873874615E'') \<and>
   resolveLocalDatasourcePaths (Some resolvedCompact) [''Data/Text 1'', ''Data/Text 2'']
      ''/sitecore/content/Home'' ''ctx-1'' ''Data/Text 1''
     = Some (Some (formatGuidWithoutHyphens ''9c8262e464564946b04ed5873874615e'')) \<and>
   resolveLocalDatasourcePaths (Some resolvedCompact) [''Data/Text 1'', ''Data/Text 2'']
      ''/sitecore/content/Home'' ''ctx-1'' ''Data/Text 2'' = Some None"
proof -
  let ?paths = "[''Data/Text 1'', ''Data/Text 2'']"
  let ?item = "JObj [(''itemId'', JStr ''9c8262e464564946b04ed5873874615e''),
                     (''name'', JStr ''Text 1'')]"
  let ?rd = "[''path0'' \<mapsto> ?item]"
  let ?response = "\<lparr>data = Some \<lparr>gql_data = Some ?rd, gql_errors = None\<rparr>, error = None\<rparr>"
  have m: "resolvedCompact \<lparr>res_endpoint = ''xmc.authoring.graphql'',
             res_sitecoreContextId = ''ctx-1'',
             res_fullPaths = map (\<lambda>localPath. ''/sitecore/content/Home'' @ ''/Data/''
                                   @ replaceFirst ''Data/'' [] localPath) ?paths\<rparr> = Inr ?response"
    by (simp add: resolvedCompact_def)
  have d: "Option.bind (data ?response) gql_data = Some ?rd"
    by simp
  have typed: "\<forall>k < length ?paths. \<forall>item v.
             ?rd (''path'' @ showNat k) = Some item \<and>
             getProp item ''itemId'' = Some v \<and> truthy v \<longrightarrow> (\<exists>s. v = JStr s)"
    by (auto simp: less_Suc_eq showNat_small)
  have i0: "0 < length ?paths" and i1: "1 < length ?paths"
    by simp_all
  have last0: "\<forall>k < length ?paths. 0 < k \<longrightarrow> ?paths ! k \<noteq> ?paths ! 0"
    by (auto simp: less_Suc_eq)
  have last1: "\<forall>k < length ?paths. 1 < k \<longrightarrow> ?paths ! k \<noteq> ?paths ! 1"
    by (auto simp: less_Suc_eq)
  have up: "toUpperCase (filter (\<lambda>c. \<not> isBrace c) ''9c8262e464564946b04ed5873874615e'')
              = ''9C8262E464564946B04ED5873874615E''"
    by code_simp
  note at0 = resolver_maps_slots
    [where mutate = resolvedCompact and ctx = "''ctx-1''" and basePath = "''/sitecore/content/Home''"
       and paths = ?paths and response = ?response and responseData = ?rd and i = 0
       and item = ?item and s = "''9c8262e464564946b04ed5873874615e''"]
  note at1 = resolver_maps_slots
    [where mutate = resolvedCompact and ctx = "''ctx-1''" and basePath = "''/sitecore/content/Home''"
       and paths = ?paths and response = ?response and responseData = ?rd and i = 1
       and item = ?item and s = "''9c8262e464564946b04ed5873874615e''"]
  note first = at0 [OF m d typed i0 last0]
  note second = at1 [OF m d typed i1 last1]
  have slot0: "?rd (''path'' @ showNat 0) = Some ?item"
    by (simp add: showNat_small)
  have id0: "getProp ?item ''itemId'' = Some (JStr ''9c8262e464564946b04ed5873874615e'')"
    by simp
  have ne: "''9c8262e464564946b04ed5873874615e'' \<noteq> []"
    by simp
  have nh: "CHR ''-'' \<notin> set ''9c8262e464564946b04ed5873874615e''"
    by simp
  have p0: "?paths ! 0 = ''Data/Text 1''"
    by simp
  have both:
    "resolveLocalDatasourcePaths (Some resolvedCompact) ?paths ''/sitecore/content/Home''
       ''ctx-1'' ''Data/Text 1''
       = Some (Some (toUpperCase (filter (\<lambda>c. \<not> isBrace c) ''9c8262e464564946b04ed5873874615e''))) \<and>
     resolveLocalDatasourcePaths (Some resolvedCompact) ?paths ''/sitecore/content/Home''
       ''ctx-1'' ''Data/Text 1''
       = Some (Some (formatGuidWithoutHyphens ''9c8262e464564946b04ed5873874615e''))"
    using first slot0 id0 ne nh unfolding p0 by blast
  have "resolveLocalDatasourcePaths (Some resolvedCompact) ?paths ''/sitecore/content/Home''
          ''ctx-1'' ''Data/Text 1'' = Some (Some ''9C8262E464564946B04ED5873874615E'')"
    using both unfolding up by blast
  moreover have "resolveLocalDatasourcePaths (Some resolvedCompact) ?paths
          ''/sitecore/content/Home'' ''ctx-1'' ''Data/Text 1''
          = Some (Some (formatGuidWithoutHyphens ''9c8262e464564946b04ed5873874615e''))"
    using both by blast
  moreover have "resolveLocalDatasourcePaths (Some resolvedCompact) ?paths
          ''/sitecore/content/Home'' ''ctx-1'' ''Data/Text 2'' = Some None"
    using second by (simp add: showNat_small)
  ultimately show ?thesis by blast
qed

section \<open>Properties of the Dual-Endpoint Fetcher\<close>

text \<open>
  Claim C3 as stated says that each fetcher returns a success envelope
  \<open>{data: {data: {...}}}\<close> or an error envelope \<open>{error}\<close> and never rejects. With a client,
  a non-empty identifier list and no context token, \<open>getItemsFromAuthoring\<close> throws before
  its \<open>try\<close> block, so its promise is rejected. And when the endpoint answers with a body
  that has \<open>errors\<close> and no \<open>data\<close>, both fetchers return an envelope that has neither
  \<open>data.data\<close> nor \<open>error\<close>.
\<close>

theorem fetchers_reject_or_misshape_counterexample:
  "getItemsFromAuthoring (Some rejectingMutate) [''5ED521788F0649BE9D4CF191E650189E''] None =
     Inl (mkError ''sitecoreContextId is required for authoring GraphQL queries'') \<and>
   getItemsFromLive () errorsOnlyFetch [''5ED521788F0649BE9D4CF191E650189E''] None =
     Inr \<lparr>data = Some \<lparr>gql_data = None,
                         gql_errors = Some [JObj [(''message'', JStr ''Cannot query field'')]]\<rparr>,
          error = None\<rparr> \<and>
   getItemsFromAuthoring (Some errorsOnlyMutate) [''5ED521788F0649BE9D4CF191E650189E''] (Some ''ctx-1'') =
     Inr \<lparr>data = Some \<lparr>gql_data = None,
                         gql_errors = Some [JObj [(''message'', JStr ''Cannot query field'')]]\<rparr>,
          error = None\<rparr>"
  by (simp add: getItemsFromAuthoring_def getItemsFromLive_def errorsOnlyFetch_def
        errorsOnlyMutate_def errorsOnlyEnvelope_def errorsOnlyBody_def)

text \<open>
  Claim C3, amended. For every identifier list and every context token,
  \<open>getItemsFromLive\<close> never rejects: it returns the empty success envelope for the empty
  list; the error envelope of what \<open>fetch\<close> threw; the error envelope of
  \<open>HTTP error! status: ...\<close> for a response that is not \<open>ok\<close>; the error envelope of what
  \<open>response.json()\<close> threw; and otherwise \<open>{data: body}\<close> for the parsed body, whatever it
  has. \<open>getItemsFromAuthoring\<close> returns the empty success envelope when the client is
  missing or the list is empty; otherwise it rejects with the error
  \<open>sitecoreContextId is required for authoring GraphQL queries\<close> when the context token is
  missing or empty; otherwise it returns the error envelope of what the transport threw, or
  the transport's result unchanged.
\<close>

theorem fetchers_contain_exceptions:
  "(\<exists>env. getItemsFromLive liveClient fetch ids ctx = Inr env) \<and>
   (ids = [] \<longrightarrow> getItemsFromLive liveClient fetch ids ctx = Inr emptyEnvelope) \<and>
   (ids \<noteq> [] \<and> fetch (map formatGuidForLive ids) = Inl e \<longrightarrow>
      getItemsFromLive liveClient fetch ids ctx = Inr (errorEnvelope e)) \<and>
   (ids \<noteq> [] \<and> fetch (map formatGuidForLive ids) = Inr response \<and> \<not> ok response \<longrightarrow>
      getItemsFromLive liveClient fetch ids ctx =
        Inr (errorEnvelope (mkError (''HTTP error! status: '' @ showNat (status response))))) \<and>
   (ids \<noteq> [] \<and> fetch (map formatGuidForLive ids) = Inr response \<and> ok response \<and>
    json response = Inl e \<longrightarrow>
      getItemsFromLive liveClient fetch ids ctx = Inr (errorEnvelope e)) \<and>
   (ids \<noteq> [] \<and> fetch (map formatGuidForLive ids) = Inr response \<and> ok response \<and>
    json response = Inr body \<longrightarrow>
      getItemsFromLive liveClient fetch ids ctx = Inr \<lparr>data = body, error = None\<rparr>) \<and>
   (client = None \<or> ids = [] \<longrightarrow> getItemsFromAuthoring client ids ctx = Inr emptyEnvelope) \<and>
   (client = Some mutate \<and> ids \<noteq> [] \<and> (ctx = None \<or> ctx = Some []) \<longrightarrow>
      getItemsFromAuthoring client ids ctx =
        Inl (mkError ''sitecoreContextId is required for authoring GraphQL queries'')) \<and>
   (client = Some mutate \<and> ids \<noteq> [] \<and> ctx = Some token \<and> token \<noteq> [] \<and>
    mutate \<lparr>req_endpoint = ''xmc.authoring.graphql'', req_sitecoreContextId = token,
            req_itemIds = ids\<rparr> = Inl thrown \<longrightarrow>
      getItemsFromAuthoring client ids ctx = Inr (errorEnvelope thrown)) \<and>
   (client = Some mutate \<and> ids \<noteq> [] \<and> ctx = Some token \<and> token \<noteq> [] \<and>
    mutate \<lparr>req_endpoint = ''xmc.authoring.graphql'', req_sitecoreContextId = token,
            req_itemIds = ids\<rparr> = Inr res \<longrightarrow>
      getItemsFromAuthoring client ids ctx = Inr res)"
proof -
  have live: "\<exists>env. getItemsFromLive liveClient fetch ids ctx = Inr env"
    by (auto simp: getItemsFromLive_def split: sum.splits)
  have auth: "client = None \<or> ids = [] \<longrightarrow> getItemsFromAuthoring client ids ctx = Inr emptyEnvelope"
    by (auto simp: getItemsFromAuthoring_def split: option.splits)
  show ?thesis
    using live auth by (auto simp: getItemsFromLive_def getItemsFromAuthoring_def)
qed

text \<open>
  The theorem at one input for each of its cases: the empty list, a \<open>fetch\<close> that rejects, a
  response with status 500, a body that cannot be parsed, a body with data, an empty token,
  a \<open>mutate\<close> that rejects and one that answers.
\<close>

theorem fetchers_contain_exceptions_witness:
  "getItemsFromLive () rejectingFetch [] (Some ''ctx-1'') = Inr emptyEnvelope \<and>
   getItemsFromLive () rejectingFetch [''5ED521788F0649BE9D4CF191E650189E''] (Some ''ctx-1'')
     = Inr (errorEnvelope (mkError ''Failed to fetch'')) \<and>
   getItemsFromLive () failingFetch [''5ED521788F0649BE9D4CF191E650189E''] (Some ''ctx-1'')
     = Inr (errorEnvelope (mkError ''HTTP error! status: 500'')) \<and>
   getItemsFromLive () unparsableFetch [''5ED521788F0649BE9D4CF191E650189E''] (Some ''ctx-1'')
     = Inr (errorEnvelope (mkError ''Unexpected token < in JSON'')) \<and>
   getItemsFromLive () answeringFetch [''5ED521788F0649BE9D4CF191E650189E''] (Some ''ctx-1'')
     = Inr liveItem0 \<and>
   getItemsFromAuthoring (Some rejectingMutate) [] None = Inr emptyEnvelope \<and>
   getItemsFromAuthoring (Some rejectingMutate) [''5ED521788F0649BE9D4CF191E650189E''] (Some [])
     = Inl (mkError ''sitecoreContextId is required for authoring GraphQL queries'') \<and>
   getItemsFromAuthoring (Some rejectingMutate) [''5ED521788F0649BE9D4CF191E650189E''] (Some ''ctx-1'')
     = Inr (errorEnvelope (mkError ''Network request failed'')) \<and>
   getItemsFromAuthoring (Some answeringMutate) [''5ED521788F0649BE9D4CF191E650189E''] (Some ''ctx-1'')
     = Inr authoringItem0"
proof -
  let ?ids = "[''5ED521788F0649BE9D4CF191E650189E'']"
  let ?req = "\<lparr>req_endpoint = ''xmc.authoring.graphql'', req_sitecoreContextId = ''ctx-1'',
               req_itemIds = ?ids\<rparr>"
  have s500: "showNat 500 = ''500''"
    by (simp add: showNat.simps char_of_eq_iff)
  have l0: "liveItem0 = \<lparr>data = data liveItem0, error = None\<rparr>"
    by (simp add: liveItem0_def)
  note t1 = fetchers_contain_exceptions
    [where liveClient = "()" and fetch = rejectingFetch and ids = "[]" and ctx = "Some ''ctx-1''"
       and client = "Some rejectingMutate" and mutate = rejectingMutate]
  note t2 = fetchers_contain_exceptions
    [where liveClient = "()" and fetch = rejectingFetch and ids = ?ids and ctx = "Some ''ctx-1''"
       and e = "mkError ''Failed to fetch''" and client = "Some rejectingMutate"
       and mutate = rejectingMutate and token = "''ctx-1''"
       and thrown = "mkError ''Network request failed''"]
  note t3 = fetchers_contain_exceptions
    [where liveClient = "()" and fetch = failingFetch and ids = ?ids and ctx = "Some ''ctx-1''"
       and response = "\<lparr>ok = False, status = 500, json = Inr None\<rparr>"
       and client = "Some answeringMutate" and mutate = answeringMutate and token = "''ctx-1''"
       and res = authoringItem0]
  note t4 = fetchers_contain_exceptions
    [where liveClient = "()" and fetch = unparsableFetch and ids = ?ids and ctx = "Some ''ctx-1''"
       and e = "mkError ''Unexpected token < in JSON''"
       and response = "\<lparr>ok = True, status = 200,
                        json = Inl (mkError ''Unexpected token < in JSON'')\<rparr>"
       and client = "Some rejectingMutate" and mutate = rejectingMutate]
  note t5 = fetchers_contain_exceptions
    [where liveClient = "()" and fetch = answeringFetch and ids = ?ids and ctx = "Some ''ctx-1''"
       and response = "\<lparr>ok = True, status = 200, json = Inr (data liveItem0)\<rparr>"
       and body = "data liveItem0"
       and client = "Some rejectingMutate" and mutate = rejectingMutate]
  note t6 = fetchers_contain_exceptions
    [where liveClient = "()" and fetch = rejectingFetch and ids = ?ids and ctx = "Some []"
       and client = "Some rejectingMutate" and mutate = rejectingMutate]
  note t7 = fetchers_contain_exceptions
    [where liveClient = "()" and fetch = rejectingFetch and ids = "[]" and ctx = None
       and client = "Some rejectingMutate" and mutate = rejectingMutate]
  have "getItemsFromLive () rejectingFetch [] (Some ''ctx-1'') = Inr emptyEnvelope"
    using t1 by simp
  moreover have "getItemsFromLive () rejectingFetch ?ids (Some ''ctx-1'')
     = Inr (errorEnvelope (mkError ''Failed to fetch''))"
    using t2 by (simp add: rejectingFetch_def)
  moreover have "getItemsFromLive () failingFetch ?ids (Some ''ctx-1'')
     = Inr (errorEnvelope (mkError ''HTTP error! status: 500''))"
    using t3 by (simp add: failingFetch_def s500)
  moreover have "getItemsFromLive () unparsableFetch ?ids (Some ''ctx-1'')
     = Inr (errorEnvelope (mkError ''Unexpected token < in JSON''))"
    using t4 by (simp add: unparsableFetch_def)
  moreover have "getItemsFromLive () answeringFetch ?ids (Some ''ctx-1'') = Inr liveItem0"
    using t5 l0 by (simp add: answeringFetch_def)
  moreover have "getItemsFromAuthoring (Some rejectingMutate) [] None = Inr emptyEnvelope"
    using t7 by simp
  moreover have "getItemsFromAuthoring (Some rejectingMutate) ?ids (Some [])
     = Inl (mkError ''sitecoreContextId is required for authoring GraphQL queries'')"
    using t6 by simp
  moreover have "getItemsFromAuthoring (Some rejectingMutate) ?ids (Some ''ctx-1'')
     = Inr (errorEnvelope (mkError ''Network request failed''))"
    using t2 by (simp add: rejectingMutate_def)
  moreover have "getItemsFromAuthoring (Some answeringMutate) ?ids (Some ''ctx-1'')
     = Inr authoringItem0"
    using t3 by (simp add: answeringMutate_def)
  ultimately show ?thesis by blast
qed

section \<open>Properties of the Response Reconciler\<close>

lemma processItemData_length:
  "length (processItemData ops authoringResult liveResult ids cur) = length ids"
  by (simp add: processItemData_def Let_def)

lemma processItemData_nth:
  "i < length ids \<Longrightarrow>
   processItemData ops authoringResult liveResult ids cur ! i =
     processItem ops (validData (validateResponse authoringResult))
       (validData (validateResponse liveResult)) cur i (ids ! i)"
  by (simp add: processItemData_def Let_def nth_enumerate_eq)

lemma validData_success:
  "\<not> truthyOpt err \<Longrightarrow>
   validData (validateResponse
      \<lparr>data = Some \<lparr>gql_data = Some d, gql_errors = errs\<rparr>, error = err\<rparr>) = Some d"
  by (simp add: validateResponse_def Let_def)

lemma validData_error: "validData (validateResponse (errorEnvelope e)) = None"
  by (simp add: validateResponse_def errorEnvelope_def)

lemma optChain_None: "optChain None key = None"
  by (simp add: optChain_def)

lemma orElse_jsOr_None: "orElse (jsOr None b) d = orElse b d" "orElse (jsOr a None) d = orElse a d"
  by (cases a; simp add: orElse_def jsOr_def)+

lemma orElse_None: "orElse None d = d"
  by (simp add: orElse_def)

text \<open>
  Claim C1. For the identifier list \<open>[A, B, C]\<close>, an authoring envelope whose data has only
  the alias \<open>item1\<close> and a live envelope whose data has only the aliases \<open>item0\<close> and
  \<open>item2\<close> (success envelopes: neither carries a truthy \<open>error\<close>), \<open>processItemData\<close>
  returns exactly three records, for \<open>A\<close>, \<open>B\<close> and \<open>C\<close> in this order, and every field of
  each is fixed by the payload of its own position. The record of \<open>B\<close> has name, path,
  version, template and language of the authoring payload of \<open>item1\<close> (with the defaults
  for what that payload lacks), and \<open>publishedVersion\<close> null, not published, not outdated.
  The record of \<open>A\<close> has nothing of an authoring payload (latest version 0, empty path, no
  template) and takes name, published version and language from the live payload of
  \<open>item0\<close>; the record of \<open>C\<close> likewise from the live payload of \<open>item2\<close>.
\<close>

theorem processItemData_ordinal_alignment:
  assumes "authoringResult =
             \<lparr>data = Some \<lparr>gql_data = Some [''item1'' \<mapsto> a1], gql_errors = aerrs\<rparr>,
              error = aerror\<rparr>"
      and "\<not> truthyOpt aerror"
      and "liveResult =
             \<lparr>data = Some \<lparr>gql_data = Some [''item0'' \<mapsto> l0, ''item2'' \<mapsto> l2],
                           gql_errors = lerrs\<rparr>,
              error = lerror\<rparr>"
      and "\<not> truthyOpt lerror"
  shows "processItemData ops authoringResult liveResult [A, B, C] cur =
     [\<lparr>id' = A,
       name = orElse (optChain (Some l0) ''name'') (JStr ''Unknown Item''),
       path = JStr [],
       latestVersion = JNum 0,
       publishedVersion = orElse (optChain (Some l0) ''version'') JNull,
       isPublished = (orElse (optChain (Some l0) ''version'') JNull \<noteq> JNull),
       isOutdated = (orElse (optChain (Some l0) ''version'') JNull \<noteq> JNull \<and>
                     lessThan ops (orElse (optChain (Some l0) ''version'') JNull) (JNum 0)),
       versionDifference =
         (if orElse (optChain (Some l0) ''version'') JNull \<noteq> JNull
          then minus ops (JNum 0) (orElse (optChain (Some l0) ''version'') JNull)
          else JNum 0),
       itemType = determineItemType A cur,
       template = None,
       language = Some (orElse (optChain (optChain (Some l0) ''language'') ''name'') (JStr ''en''))\<rparr>,
      \<lparr>id' = B,
       name = orElse (optChain (Some a1) ''name'') (JStr ''Unknown Item''),
       path = orElse (optChain (Some a1) ''path'') (JStr []),
       latestVersion = orElse (optChain (Some a1) ''version'') (JNum 0),
       publishedVersion = JNull,
       isPublished = False,
       isOutdated = False,
       versionDifference = orElse (optChain (Some a1) ''version'') (JNum 0),
       itemType = determineItemType B cur,
       template = optChain (optChain (Some a1) ''template'') ''name'',
       language = Some (orElse (optChain (optChain (Some a1) ''language'') ''name'') (JStr ''en''))\<rparr>,
      \<lparr>id' = C,
       name = orElse (optChain (Some l2) ''name'') (JStr ''Unknown Item''),
       path = JStr [],
       latestVersion = JNum 0,
       publishedVersion = orElse (optChain (Some l2) ''version'') JNull,
       isPublished = (orElse (optChain (Some l2) ''version'') JNull \<noteq> JNull),
       isOutdated = (orElse (optChain (Some l2) ''version'') JNull \<noteq> JNull \<and>
                     lessThan ops (orElse (optChain (Some l2) ''version'') JNull) (JNum 0)),
       versionDifference =
         (if orElse (optChain (Some l2) ''version'') JNull \<noteq> JNull
          then minus ops (JNum 0) (orElse (optChain (Some l2) ''version'') JNull)
          else JNum 0),
       itemType = determineItemType C cur,
       template = None,
       language = Some (orElse (optChain (optChain (Some l2) ''language'') ''name'') (JStr ''en''))\<rparr>]"
  unfolding assms(1,3)
  by (simp add: processItemData_def validData_success [OF assms(2)] validData_success [OF assms(4)]
        processItem_def itemAt_def showNat_small optChain_None orElse_jsOr_None orElse_None Let_def)

text \<open>
  The theorem at the envelopes \<open>authoringItem1\<close> (Article, version 8, under \<open>item1\<close>) and
  \<open>liveItem0Item2\<close> (Home, version 5, under \<open>item0\<close>; Footer, version 2, under \<open>item2\<close>).
\<close>

theorem processItemData_ordinal_alignment_witness:
  "processItemData integerOperators authoringItem1 liveItem0Item2 [''A'', ''B'', ''C''] None =
     [\<lparr>id' = ''A'', name = JStr ''Home'', path = JStr [], latestVersion = JNum 0,
       publishedVersion = JNum 5, isPublished = True, isOutdated = False,
       versionDifference = JNum (- 5), itemType = Reference, template = None,
       language = Some (JStr ''da'')\<rparr>,
      \<lparr>id' = ''B'', name = JStr ''Article'', path = JStr ''/sitecore/content/Home/Article'',
       latestVersion = JNum 8, publishedVersion = JNull, isPublished = False, isOutdated = False,
       versionDifference = JNum 8, itemType = Reference, template = Some (JStr ''Page''),
       language = Some (JStr ''en'')\<rparr>,
      \<lparr>id' = ''C'', name = JStr ''Footer'', path = JStr [], latestVersion = JNum 0,
       publishedVersion = JNum 2, isPublished = True, isOutdated = False,
       versionDifference = JNum (- 2), itemType = Reference, template = None,
       language = Some (JStr ''de'')\<rparr>]"
proof -
  have a: "authoringItem1 =
             \<lparr>data = Some \<lparr>gql_data = Some [''item1'' \<mapsto> exampleAuthoringItem],
                           gql_errors = None\<rparr>,
              error = None\<rparr>"
    by (simp add: authoringItem1_def)
  have l: "liveItem0Item2 =
             \<lparr>data = Some \<lparr>gql_data = Some [''item0'' \<mapsto> exampleLiveItem,
                                            ''item2'' \<mapsto> exampleLiveItem2],
                           gql_errors = None\<rparr>,
              error = None\<rparr>"
    by (simp add: liveItem0Item2_def)
  have n: "\<not> truthyOpt None" by simp
  show ?thesis
    using processItemData_ordinal_alignment [OF a n l n, of integerOperators "''A''" "''B''" "''C''" None]
    by (simp add: exampleAuthoringItem_def exampleLiveItem_def exampleLiveItem2_def optChain_def
          orElse_def integerOperators_def determineItemType_def)
qed

text \<open>
  Claim C2 as stated says that the published version is null only when the live payload is
  absent. With a live payload of version 0 under \<open>item0\<close> the published version is null
  although the payload is there.
\<close>

theorem published_version_zero_counterexample:
  "itemAt (validData (validateResponse liveItem0Zero)) 0 = Some exampleLiveItemZero \<and>
   optChain (Some exampleLiveItemZero) ''version'' = Some (JNum 0) \<and>
   publishedVersion (processItemData integerOperators authoringItem0 liveItem0Zero [''A''] None ! 0)
     = JNull \<and>
   publishedVersion (processItemData integerOperators authoringItem0 liveItem0Zero [''A''] None ! 0)
     \<noteq> JNum 0"
  by (simp add: processItemData_def liveItem0Zero_def authoringItem0_def validData_success
        processItem_def itemAt_def showNat_small exampleLiveItemZero_def optChain_def orElse_def
        Let_def)

text \<open>
  Claim C2, amended. For every identifier list, every pair of envelopes and every position
  \<open>i\<close> of the list, with the payloads that the validated data of the two envelopes have
  under the alias of \<open>i\<close>: \<open>latestVersion\<close> is the authoring payload's version when that
  is truthy, and 0 otherwise (no payload, no version, or the version 0);
  \<open>publishedVersion\<close> is the live payload's version when that is truthy, and null
  otherwise (no payload, no version, or the version 0);
  \<open>isPublished = (publishedVersion \<noteq> null)\<close>;
  \<open>isOutdated = (isPublished \<and> publishedVersion < latestVersion)\<close>; and
  \<open>versionDifference\<close> is \<open>latestVersion - publishedVersion\<close> when published,
  \<open>latestVersion\<close> otherwise, with the operators \<open><\<close> and \<open>-\<close> of JavaScript.
\<close>

theorem processItemData_field_formulas:
  assumes "i < length ids"
  shows "latestVersion (processItemData ops authoringResult liveResult ids cur ! i) =
           (case optChain (itemAt (validData (validateResponse authoringResult)) i) ''version'' of
              None \<Rightarrow> JNum 0 | Some v \<Rightarrow> if truthy v then v else JNum 0) \<and>
         publishedVersion (processItemData ops authoringResult liveResult ids cur ! i) =
           (case optChain (itemAt (validData (validateResponse liveResult)) i) ''version'' of
              None \<Rightarrow> JNull | Some v \<Rightarrow> if truthy v then v else JNull) \<and>
         isPublished (processItemData ops authoringResult liveResult ids cur ! i) =
           (publishedVersion (processItemData ops authoringResult liveResult ids cur ! i) \<noteq> JNull) \<and>
         isOutdated (processItemData ops authoringResult liveResult ids cur ! i) =
           (isPublished (processItemData ops authoringResult liveResult ids cur ! i) \<and>
            lessThan ops
              (publishedVersion (processItemData ops authoringResult liveResult ids cur ! i))
              (latestVersion (processItemData ops authoringResult liveResult ids cur ! i))) \<and>
         versionDifference (processItemData ops authoringResult liveResult ids cur ! i) =
           (if isPublished (processItemData ops authoringResult liveResult ids cur ! i)
            then minus ops
                   (latestVersion (processItemData ops authoringResult liveResult ids cur ! i))
                   (publishedVersion (processItemData ops authoringResult liveResult ids cur ! i))
            else latestVersion (processItemData ops authoringResult liveResult ids cur ! i))"
  unfolding processItemData_nth [OF assms]
  by (simp add: processItem_def orElse_def Let_def split: option.splits)

text \<open>
  The theorem at the spec's scenario 4: authoring version 8 and live version 5 under
  \<open>item0\<close> give an outdated record with version difference 3.
\<close>

theorem processItemData_field_formulas_witness:
  "latestVersion (processItemData integerOperators authoringItem0 liveItem0 [''A''] None ! 0)
     = JNum 8 \<and>
   publishedVersion (processItemData integerOperators authoringItem0 liveItem0 [''A''] None ! 0)
     = JNum 5 \<and>
   isPublished (processItemData integerOperators authoringItem0 liveItem0 [''A''] None ! 0) = True \<and>
   isOutdated (processItemData integerOperators authoringItem0 liveItem0 [''A''] None ! 0) = True \<and>
   versionDifference (processItemData integerOperators authoringItem0 liveItem0 [''A''] None ! 0)
     = JNum 3"
proof -
  have i: "0 < length [''A'']" by simp
  have a: "optChain (itemAt (validData (validateResponse authoringItem0)) 0) ''version''
             = Some (JNum 8)"
    by (simp add: authoringItem0_def validData_success itemAt_def showNat_small optChain_def
          exampleAuthoringItem_def)
  have l: "optChain (itemAt (validData (validateResponse liveItem0)) 0) ''version'' = Some (JNum 5)"
    by (simp add: liveItem0_def validData_success itemAt_def showNat_small optChain_def
          exampleLiveItem_def)
  show ?thesis
    using processItemData_field_formulas [OF i, of integerOperators authoringItem0 liveItem0 None]
    by (simp add: a l integerOperators_def)
qed

text \<open>
  Claim C8 as stated says that every record carries the authoring name intact. An
  authoring payload whose name is the empty string gives a record named \<open>Unknown Item\<close>.
\<close>

theorem live_failure_name_counterexample:
  "optChain (Some exampleNamelessItem) ''name'' = Some (JStr []) \<and>
   name (processItemData integerOperators authoringItem0Nameless
           (errorEnvelope (mkError ''Failed to fetch'')) [''A''] None ! 0) = JStr ''Unknown Item'' \<and>
   name (processItemData integerOperators authoringItem0Nameless
           (errorEnvelope (mkError ''Failed to fetch'')) [''A''] None ! 0) \<noteq> JStr []"
  by (simp add: processItemData_def authoringItem0Nameless_def validData_success validData_error
        processItem_def itemAt_def showNat_small exampleNamelessItem_def optChain_def orElse_def
        jsOr_def Let_def)

text \<open>
  Claim C8, amended. For every non-empty identifier list, when the authoring envelope is a
  success envelope with a payload under the alias of every position and the live result is
  an error envelope, \<open>processItemData\<close> returns one record per identifier, and the record
  of every position \<open>i\<close> has the identifier of \<open>i\<close>, \<open>publishedVersion\<close> null and
  \<open>isPublished\<close> false, and the version, the path and the name of the authoring payload of
  \<open>i\<close> wherever these are truthy; a missing or empty name is replaced by \<open>Unknown Item\<close>,
  a missing or empty path by the empty string, a missing version or the version 0 by 0.
\<close>

theorem processItemData_live_failure:
  assumes "ids \<noteq> []"
      and "authoringResult =
             \<lparr>data = Some \<lparr>gql_data = Some d, gql_errors = errs\<rparr>, error = aerror\<rparr>"
      and "\<not> truthyOpt aerror"
      and "\<forall>k < length ids. d (''item'' @ showNat k) \<noteq> None"
      and "liveResult = errorEnvelope e"
      and "i < length ids"
  shows "length (processItemData ops authoringResult liveResult ids cur) = length ids \<and>
         id' (processItemData ops authoringResult liveResult ids cur ! i) = ids ! i \<and>
         publishedVersion (processItemData ops authoringResult liveResult ids cur ! i) = JNull \<and>
         isPublished (processItemData ops authoringResult liveResult ids cur ! i) = False \<and>
         latestVersion (processItemData ops authoringResult liveResult ids cur ! i)
           = (case optChain (d (''item'' @ showNat i)) ''version'' of
                None \<Rightarrow> JNum 0 | Some v \<Rightarrow> if truthy v then v else JNum 0) \<and>
         path (processItemData ops authoringResult liveResult ids cur ! i)
           = (case optChain (d (''item'' @ showNat i)) ''path'' of
                None \<Rightarrow> JStr [] | Some v \<Rightarrow> if truthy v then v else JStr []) \<and>
         name (processItemData ops authoringResult liveResult ids cur ! i)
           = (case optChain (d (''item'' @ showNat i)) ''name'' of
                None \<Rightarrow> JStr ''Unknown Item''
              | Some v \<Rightarrow> if truthy v then v else JStr ''Unknown Item'')"
  unfolding processItemData_nth [OF assms(6)] processItemData_length assms(2,5)
    validData_success [OF assms(3)] validData_error
  by (simp add: processItem_def itemAt_def orElse_def jsOr_def optChain_None Let_def
        split: option.splits del: append.simps)

text \<open>
  The theorem at the spec's scenario 5: the authoring envelope \<open>authoringItem0\<close> and a live
  call that threw.
\<close>

theorem processItemData_live_failure_witness:
  "length (processItemData integerOperators authoringItem0
             (errorEnvelope (mkError ''Failed to fetch'')) [''A''] None) = 1 \<and>
   publishedVersion (processItemData integerOperators authoringItem0
             (errorEnvelope (mkError ''Failed to fetch'')) [''A''] None ! 0) = JNull \<and>
   isPublished (processItemData integerOperators authoringItem0
             (errorEnvelope (mkError ''Failed to fetch'')) [''A''] None ! 0) = False \<and>
   latestVersion (processItemData integerOperators authoringItem0
             (errorEnvelope (mkError ''Failed to fetch'')) [''A''] None ! 0) = JNum 8 \<and>
   path (processItemData integerOperators authoringItem0
             (errorEnvelope (mkError ''Failed to fetch'')) [''A''] None ! 0)
     = JStr ''/sitecore/content/Home/Article'' \<and>
   name (processItemData integerOperators authoringItem0
             (errorEnvelope (mkError ''Failed to fetch'')) [''A''] None ! 0) = JStr ''Article''"
proof -
  have n: "[''A''] \<noteq> []" by simp
  have a: "authoringItem0 =
             \<lparr>data = Some \<lparr>gql_data = Some [''item0'' \<mapsto> exampleAuthoringItem],
                           gql_errors = None\<rparr>,
              error = None\<rparr>"
    by (simp add: authoringItem0_def)
  have t: "\<not> truthyOpt None" by simp
  have p: "\<forall>k < length [''A'']. [''item0'' \<mapsto> exampleAuthoringItem] (''item'' @ showNat k) \<noteq> None"
    by (simp add: showNat_small)
  have i: "0 < length [''A'']" by simp
  show ?thesis
    using processItemData_live_failure
      [OF n a t p refl i, of integerOperators "mkError ''Failed to fetch''" None]
    by (simp add: showNat_small exampleAuthoringItem_def optChain_def)
qed

end
